theory Spec2Isabelle
  imports Main "HOL-Library.AList" "HOL-Library.Word"
begin

section \<open>The XHE kernel: identity, addressing, pulses, slips and the social graph\<close>

text \<open>
  A shallow embedding of the kernel class \<^verbatim>\<open>XHEKernel\<close> and of the pure helpers around it.
  Conventions of the embedding:
  \<^item> a JavaScript object used as a dictionary is an association list in insertion order;
    \<open>obj[k] = v\<close> is \<^const>\<open>AList.update\<close> (an existing key keeps its place, a new key
    goes to the end) and \<open>obj[k]\<close> is \<^const>\<open>map_of\<close>; keys are plain strings (no key of
    \<open>Object.prototype\<close> is ever looked up);
  \<^item> \<open>localStorage\<close> is a record with one optional, typed value per storage key; reads and
    writes succeed, and a stored value is read back as it was written
    (\<open>JSON.parse (JSON.stringify v) = v\<close>);
  \<^item> what the platform supplies to a call (the readings of \<open>timestamp()\<close>, the draws of
    \<open>randomHex\<close>) is an explicit argument of the operation; the platform's functions
    (\<open>TextEncoder\<close>, \<open>crypto.subtle.digest\<close>, \<open>btoa\<close>, \<open>JSON.stringify\<close>) are the
    fields of an environment record that every operation takes;
  \<^item> a \<open>throw\<close> is the \<open>Inl\<close> branch of a sum; an operation returns its outcome together
    with the kernel it leaves behind;
  \<^item> a string is a list of 8-bit characters, one for each code unit of the JavaScript
    string (the addresses, dids, hashes and sequence strings the kernel builds are ASCII);
  \<^item> amounts and balances are integers, the pulse counter is a natural number;
  \<^item> operations run one after the other (one logical writer); observers registered with
    \<open>on\<close> are called inside \<open>try/catch\<close> and change nothing of the kernel, so \<open>_emit\<close>
    has no counterpart here.
\<close>

subsection \<open>Strings\<close>

definition startsWith :: "string \<Rightarrow> string \<Rightarrow> bool" where
  "startsWith s p = (take (length p) s = p)"

text \<open>\<open>s.slice(a, b)\<close> for \<open>0 \<le> a \<le> b\<close>, and \<open>s.slice(a)\<close> as \<^term>\<open>drop a s\<close>.\<close>

definition slice :: "nat \<Rightarrow> nat \<Rightarrow> string \<Rightarrow> string" where
  "slice a b s = take (b - a) (drop a s)"

text \<open>
  The white space \<open>trim\<close> removes, among the code units below 256: space, tab, line
  feed, vertical tab, form feed, carriage return and the no-break space.
\<close>

definition is_space :: "char \<Rightarrow> bool" where
  "is_space c =
     (c \<in> set [CHR '' '', CHR 0x09, CHR 0x0A, CHR 0x0B, CHR 0x0C, CHR 0x0D, CHR 0xA0])"

definition trim :: "string \<Rightarrow> string" where
  "trim s = rev (dropWhile is_space (rev (dropWhile is_space s)))"

text \<open>\<open>s.split('/')\<close> and \<open>parts.join('/')\<close>.\<close>

fun split_slash :: "string \<Rightarrow> string list" where
  "split_slash [] = [[]]"
| "split_slash (c # cs) =
     (if c = CHR ''/'' then [] # split_slash cs
      else (case split_slash cs of
              [] \<Rightarrow> [[c]]
            | p # ps \<Rightarrow> (c # p) # ps))"

fun join_slash :: "string list \<Rightarrow> string" where
  "join_slash [] = []"
| "join_slash [p] = p"
| "join_slash (p # q # ps) = p @ ''/'' @ join_slash (q # ps)"

definition padStart :: "nat \<Rightarrow> char \<Rightarrow> string \<Rightarrow> string" where
  "padStart n c s = replicate (n - length s) c @ s"

definition digit_char :: "nat \<Rightarrow> char" where
  "digit_char d = char_of (48 + d)"

text \<open>\<open>String(n)\<close> for a non-negative integer: its decimal digits.\<close>

fun show_nat :: "nat \<Rightarrow> string" where
  "show_nat n =
     (if n < 10 then [digit_char n]
      else show_nat (n div 10) @ [digit_char (n mod 10)])"

declare show_nat.simps [simp del]

text \<open>\<open>b.toString(16).padStart(2, '0')\<close> for a byte \<open>b\<close>.\<close>

definition hex_char :: "nat \<Rightarrow> char" where
  "hex_char d = (''0123456789abcdef'' ! d)"

definition hex2 :: "8 word \<Rightarrow> string" where
  "hex2 b = [hex_char (unat b div 16), hex_char (unat b mod 16)]"

text \<open>The number a string of decimal digits denotes (used to read a pulse's sequence field).\<close>

definition digit_val :: "char \<Rightarrow> nat" where
  "digit_val c = of_char c - 48"

definition nat_of_digits :: "string \<Rightarrow> nat" where
  "nat_of_digits s = foldl (\<lambda>a c. 10 * a + digit_val c) 0 s"

subsection \<open>Structured values and the platform\<close>

datatype json =
    JNull
  | JBool bool
  | JNum int
  | JStr string
  | JArr "json list"
  | JObj "(string \<times> json) list"

record env =
  encode :: "string \<Rightarrow> 8 word list"
  digest :: "8 word list \<Rightarrow> 8 word list"
  btoa :: "string \<Rightarrow> string"
  stringify :: "json \<Rightarrow> string"
  stringify2 :: "json \<Rightarrow> string"

text \<open>
  \<open>sha256\<close>: encode the string (\<open>TextEncoder\<close>, UTF-8), digest the bytes
  (\<open>crypto.subtle.digest('SHA-256', _)\<close>), render every byte as two lowercase hex digits.
\<close>

definition sha256 :: "env \<Rightarrow> string \<Rightarrow> string" where
  "sha256 e content = concat (map hex2 (digest e (encode e content)))"

datatype error =
    ValidationError
  | UnknownSchemeError
  | InsufficientBalanceError
  | SelfFollowError
  | BlockedIdentityError
  | TypeError

subsection \<open>Constants\<close>

datatype resolution_state = RESOLVED | KNOWN_BUT_UNAVAILABLE | UNKNOWN | FORBIDDEN | INVALID

datatype uri_scheme = XHE | DID_XHE | PULSE | IPFS | SLIP | FEED | CHANNEL

fun scheme_name :: "uri_scheme \<Rightarrow> string" where
  "scheme_name XHE = ''xhe''"
| "scheme_name DID_XHE = ''did:xhe''"
| "scheme_name PULSE = ''pulse''"
| "scheme_name IPFS = ''ipfs''"
| "scheme_name SLIP = ''slip''"
| "scheme_name FEED = ''feed''"
| "scheme_name CHANNEL = ''channel''"

datatype pulse_type =
    KERNEL_INIT | KERNEL_RESET
  | IDENTITY_CREATE | IDENTITY_REGENERATE
  | ADDRESS_GENERATE | ADDRESS_RESOLVE
  | SLIP_MINT | SLIP_TRANSFER | SLIP_BURN
  | POST_CREATE | POST_REPLY | POST_REPOST
  | FOLLOW | UNFOLLOW | CHANNEL_CREATE | CHANNEL_POST

fun pulse_type_name :: "pulse_type \<Rightarrow> string" where
  "pulse_type_name KERNEL_INIT = ''KERNEL_INIT''"
| "pulse_type_name KERNEL_RESET = ''KERNEL_RESET''"
| "pulse_type_name IDENTITY_CREATE = ''IDENTITY_CREATE''"
| "pulse_type_name IDENTITY_REGENERATE = ''IDENTITY_REGENERATE''"
| "pulse_type_name ADDRESS_GENERATE = ''ADDRESS_GENERATE''"
| "pulse_type_name ADDRESS_RESOLVE = ''ADDRESS_RESOLVE''"
| "pulse_type_name SLIP_MINT = ''SLIP_MINT''"
| "pulse_type_name SLIP_TRANSFER = ''SLIP_TRANSFER''"
| "pulse_type_name SLIP_BURN = ''SLIP_BURN''"
| "pulse_type_name POST_CREATE = ''POST_CREATE''"
| "pulse_type_name POST_REPLY = ''POST_REPLY''"
| "pulse_type_name POST_REPOST = ''POST_REPOST''"
| "pulse_type_name FOLLOW = ''FOLLOW''"
| "pulse_type_name UNFOLLOW = ''UNFOLLOW''"
| "pulse_type_name CHANNEL_CREATE = ''CHANNEL_CREATE''"
| "pulse_type_name CHANNEL_POST = ''CHANNEL_POST''"

subsection \<open>The address grammar\<close>

record parsed =
  scheme :: uri_scheme
  sequence :: "string option"
  hash :: string

definition parseAddress :: "string \<Rightarrow> parsed option" where
  "parseAddress address =
     (if address = [] then None
      else
        (let trimmed = trim address in
         if startsWith trimmed ''xhe://'' then
           Some \<lparr>scheme = XHE, sequence = None, hash = drop 6 trimmed\<rparr>
         else if startsWith trimmed ''did:xhe:'' then
           Some \<lparr>scheme = DID_XHE, sequence = None, hash = drop 8 trimmed\<rparr>
         else if startsWith trimmed ''pulse://'' then
           (let rest = drop 8 trimmed; parts = split_slash rest in
            if 2 \<le> length parts then
              Some \<lparr>scheme = PULSE, sequence = Some (hd parts), hash = join_slash (tl parts)\<rparr>
            else Some \<lparr>scheme = PULSE, sequence = None, hash = rest\<rparr>)
         else if startsWith trimmed ''ipfs://'' then
           Some \<lparr>scheme = IPFS, sequence = None, hash = drop 7 trimmed\<rparr>
         else if startsWith trimmed ''slip://'' then
           Some \<lparr>scheme = SLIP, sequence = None, hash = drop 7 trimmed\<rparr>
         else if startsWith trimmed ''feed://'' then
           Some \<lparr>scheme = FEED, sequence = None, hash = drop 7 trimmed\<rparr>
         else if startsWith trimmed ''channel://'' then
           Some \<lparr>scheme = CHANNEL, sequence = None, hash = drop 10 trimmed\<rparr>
         else None))"

subsection \<open>The data model\<close>

record kernel_meta =
  m_version :: string
  m_created :: string
  m_lastActive :: string

record identity =
  did :: string
  publicKey :: string
  created :: string
  version :: nat

text \<open>An archived identity: \<open>{...this.identity, archivedAt, reason}\<close>.\<close>

record history_entry =
  h_identity :: identity
  archivedAt :: string
  reason :: string

record content_entry =
  c_content :: string
  c_timestamp :: string
  c_author :: string
  c_scheme :: string
  c_postMeta :: "(string \<times> string) option"

record index_entry =
  i_hash :: string
  i_type :: string
  i_timestamp :: string
  i_preview :: string

record pulse =
  p_type :: pulse_type
  p_payload :: json
  p_timestamp :: string
  p_author :: string
  p_sequence :: string
  p_kernelVersion :: string
  p_hash :: string
  p_address :: string
  p_id :: string

datatype tx_type = MINT | TRANSFER

record tx =
  t_id :: string
  t_type :: tx_type
  t_from :: "string option"
  t_to :: string
  t_amount :: int
  t_reason :: "string option"
  t_memo :: "string option"
  t_timestamp :: string
  t_address :: string

record ledger =
  balances :: "(string \<times> int) list"
  transactions :: "tx list"

record social =
  following :: "string list"
  followers :: "string list"
  blocked :: "string list"

record post =
  po_id :: string
  po_content :: string
  po_hash :: string
  po_author :: string
  po_timestamp :: string
  po_replyTo :: "string option"
  po_repostOf :: "string option"
  po_channel :: "string option"
  po_address :: string

record feed =
  f_id :: string
  f_owner :: string
  f_posts :: "post list"
  f_created :: string

record channel =
  ch_id :: string
  ch_name :: string
  ch_description :: string
  ch_owner :: string
  ch_created :: string
  ch_posts :: "post list"
  ch_members :: "string list"
  ch_address :: string

text \<open>\<open>localStorage\<close>: one optional value per key of \<open>STORAGE_KEYS\<close>.\<close>

record store =
  s_meta :: "kernel_meta option"
  s_identity :: "identity option"
  s_history :: "history_entry list option"
  s_content :: "(string \<times> content_entry) list option"
  s_pulses :: "(string \<times> pulse) list option"
  s_seq :: "nat option"
  s_index :: "(string \<times> index_entry) list option"
  s_ledger :: "ledger option"
  s_social :: "social option"
  s_feeds :: "(string \<times> feed) list option"
  s_channels :: "(string \<times> channel) list option"

definition empty_store :: store where
  "empty_store =
     \<lparr>s_meta = None, s_identity = None, s_history = None, s_content = None,
      s_pulses = None, s_seq = None, s_index = None, s_ledger = None,
      s_social = None, s_feeds = None, s_channels = None\<rparr>"

definition loadState :: "'a option \<Rightarrow> 'a \<Rightarrow> 'a" where
  "loadState stored defaultValue = (case stored of None \<Rightarrow> defaultValue | Some v \<Rightarrow> v)"

definition empty_ledger :: ledger where
  "empty_ledger = \<lparr>balances = [], transactions = []\<rparr>"

definition empty_social :: social where
  "empty_social = \<lparr>following = [], followers = [], blocked = []\<rparr>"

text \<open>The constructed kernel object, together with the \<open>localStorage\<close> it reads and writes.\<close>

record kernel =
  localStorage :: store
  kernelMeta :: kernel_meta
  pulseSequence :: nat
  identity :: identity
  identityHistory :: "history_entry list"
  contentStore :: "(string \<times> content_entry) list"
  pulseStore :: "(string \<times> pulse) list"
  addressIndex :: "(string \<times> index_entry) list"
  slipLedger :: ledger
  socialGraph :: social
  feeds :: "(string \<times> feed) list"
  channels :: "(string \<times> channel) list"

text \<open>
  \<open>this\<close> as \<open>_createIdentity\<close> and \<open>_emitPulseSync\<close> see it. Both also run inside the
  constructor, where a field that has not been assigned yet is \<open>undefined\<close>.
\<close>

record this_view =
  v_storage :: store
  v_pulseSequence :: nat
  v_kernelMeta :: "kernel_meta option"
  v_identity :: "identity option"
  v_pulseStore :: "(string \<times> pulse) list option"
  v_slipLedger :: "ledger option"

definition as_this :: "kernel \<Rightarrow> this_view" where
  "as_this k =
     \<lparr>v_storage = localStorage k, v_pulseSequence = pulseSequence k,
      v_kernelMeta = Some (kernelMeta k), v_identity = Some (identity k),
      v_pulseStore = Some (pulseStore k), v_slipLedger = Some (slipLedger k)\<rparr>"

text \<open>The fields \<open>_createIdentity\<close> and \<open>_emitPulseSync\<close> may have written, back in the kernel.\<close>

definition merge_this :: "this_view \<Rightarrow> kernel \<Rightarrow> kernel" where
  "merge_this t k =
     k\<lparr>localStorage := v_storage t,
       pulseSequence := v_pulseSequence t,
       pulseStore := (case v_pulseStore t of None \<Rightarrow> pulseStore k | Some ps \<Rightarrow> ps),
       slipLedger := (case v_slipLedger t of None \<Rightarrow> slipLedger k | Some l \<Rightarrow> l)\<rparr>"

text \<open>What the environment supplies to one \<open>_createIdentity\<close> call.\<close>

record identity_draw =
  r_id :: string
  r_publicKey :: string
  r_created :: string
  r_pulseTime :: string

text \<open>What the environment supplies to one run of the constructor.\<close>

record boot_in =
  b_created :: string
  b_lastActive :: string
  b_draw :: identity_draw
  b_initTime :: string

subsection \<open>Pulses\<close>

text \<open>\<open>String(this._pulseSequence).padStart(8, '0')\<close>\<close>

definition seq_string :: "nat \<Rightarrow> string" where
  "seq_string n = padStart 8 (CHR ''0'') (show_nat n)"

definition getNextSequence :: "kernel \<Rightarrow> string \<times> kernel" where
  "getNextSequence k =
     (let n = pulseSequence k + 1 in
      (seq_string n,
       k\<lparr>pulseSequence := n, localStorage := (localStorage k)\<lparr>s_seq := Some n\<rparr>\<rparr>))"

text \<open>The record that is serialised and hashed: \<open>{type, payload, timestamp, author, sequence, kernelVersion}\<close>.\<close>

definition pulse_json :: "pulse_type \<Rightarrow> json \<Rightarrow> string \<Rightarrow> string \<Rightarrow> string \<Rightarrow> string \<Rightarrow> json" where
  "pulse_json ty payload ts author sq ver =
     JObj [(''type'', JStr (pulse_type_name ty)), (''payload'', payload),
           (''timestamp'', JStr ts), (''author'', JStr author),
           (''sequence'', JStr sq), (''kernelVersion'', JStr ver)]"

definition stored_pulse :: "pulse_type \<Rightarrow> json \<Rightarrow> string \<Rightarrow> string \<Rightarrow> string \<Rightarrow> string \<Rightarrow> string \<Rightarrow> pulse" where
  "stored_pulse ty payload ts author sq ver h =
     \<lparr>p_type = ty, p_payload = payload, p_timestamp = ts, p_author = author,
      p_sequence = sq, p_kernelVersion = ver, p_hash = h,
      p_address = ''pulse://'' @ sq @ ''/'' @ h, p_id = sq @ ''/'' @ h\<rparr>"

record emitted =
  e_pulseId :: string
  e_address :: string
  e_pulse :: pulse

definition emitPulse :: "env \<Rightarrow> pulse_type \<Rightarrow> json \<Rightarrow> string \<Rightarrow> kernel \<Rightarrow> emitted \<times> kernel" where
  "emitPulse e ty payload ts k =
     (let (sq, k1) = getNextSequence k;
          author = did (identity k1);
          ver = m_version (kernelMeta k1);
          pulseContent = stringify e (pulse_json ty payload ts author sq ver);
          h = sha256 e pulseContent;
          pulseId = sq @ ''/'' @ h;
          storedPulse = stored_pulse ty payload ts author sq ver h;
          ps = AList.update pulseId storedPulse (pulseStore k1)
      in (\<lparr>e_pulseId = pulseId, e_address = ''pulse://'' @ pulseId, e_pulse = storedPulse\<rparr>,
          k1\<lparr>pulseStore := ps, localStorage := (localStorage k1)\<lparr>s_pulses := Some ps\<rparr>\<rparr>))"

text \<open>
  \<open>_emitPulseSync\<close>: the same on a \<open>this\<close> that may be under construction
  (\<open>this.identity?.did || 'kernel'\<close>, \<open>this.kernelMeta?.version || '1.0.0'\<close>,
  \<open>if (!this.pulseStore) this.pulseStore = {}\<close>), with the placeholder hash
  \<open>btoa(pulseContent).slice(0, 32)\<close>.
\<close>

definition emitPulseSync :: "env \<Rightarrow> pulse_type \<Rightarrow> json \<Rightarrow> string \<Rightarrow> this_view \<Rightarrow> this_view" where
  "emitPulseSync e ty payload ts t =
     (let n = v_pulseSequence t + 1;
          sq = seq_string n;
          st1 = (v_storage t)\<lparr>s_seq := Some n\<rparr>;
          author = (case v_identity t of
                      None \<Rightarrow> ''kernel''
                    | Some i \<Rightarrow> if did i = [] then ''kernel'' else did i);
          ver = (case v_kernelMeta t of
                   None \<Rightarrow> ''1.0.0''
                 | Some m \<Rightarrow> if m_version m = [] then ''1.0.0'' else m_version m);
          pulseContent = stringify e (pulse_json ty payload ts author sq ver);
          h = take 32 (btoa e pulseContent);
          pulseId = sq @ ''/'' @ h;
          ps0 = (case v_pulseStore t of None \<Rightarrow> [] | Some ps \<Rightarrow> ps);
          ps = AList.update pulseId (stored_pulse ty payload ts author sq ver h) ps0
      in t\<lparr>v_pulseSequence := n, v_pulseStore := Some ps,
           v_storage := st1\<lparr>s_pulses := Some ps\<rparr>\<rparr>)"

subsection \<open>Identity\<close>

text \<open>\<open>!ledger.balances[d]\<close>: no entry, or an entry of 0.\<close>

definition no_balance :: "ledger \<Rightarrow> string \<Rightarrow> bool" where
  "no_balance l d = (case map_of (balances l) d of None \<Rightarrow> True | Some b \<Rightarrow> b = 0)"

text \<open>
  \<open>_createIdentity(emitPulse)\<close>. The identity is saved first; the genesis grant then reads
  \<open>this.slipLedger.balances\<close>, which raises a \<open>TypeError\<close> when \<open>this.slipLedger\<close> is
  still \<open>undefined\<close>.
\<close>

definition createIdentity :: "env \<Rightarrow> bool \<Rightarrow> identity_draw \<Rightarrow> this_view \<Rightarrow> (error + identity) \<times> this_view" where
  "createIdentity e emitPulseFlag r t =
     (let ident = \<lparr>did = ''did:xhe:'' @ r_id r, publicKey = r_publicKey r,
                   created = r_created r, version = 1\<rparr>;
          t1 = t\<lparr>v_storage := (v_storage t)\<lparr>s_identity := Some ident\<rparr>\<rparr>
      in case v_slipLedger t1 of
           None \<Rightarrow> (Inl TypeError, t1)
         | Some l \<Rightarrow>
             (let t2 = (if no_balance l (did ident) then
                          (let l' = l\<lparr>balances := AList.update (did ident) 100 (balances l)\<rparr>
                           in t1\<lparr>v_slipLedger := Some l',
                                 v_storage := (v_storage t1)\<lparr>s_ledger := Some l'\<rparr>\<rparr>)
                        else t1);
                  t3 = (if emitPulseFlag then
                          emitPulseSync e IDENTITY_CREATE (JObj [(''did'', JStr (did ident))])
                            (r_pulseTime r) t2
                        else t2)
              in (Inr ident, t3)))"

definition loadOrCreateIdentity :: "env \<Rightarrow> bool \<Rightarrow> identity_draw \<Rightarrow> this_view \<Rightarrow> (error + identity) \<times> this_view" where
  "loadOrCreateIdentity e isNewKernel r t =
     (case s_identity (v_storage t) of
        None \<Rightarrow> createIdentity e isNewKernel r t
      | Some stored \<Rightarrow>
          if did stored \<noteq> [] then (Inr stored, t) else createIdentity e isNewKernel r t)"

subsection \<open>The constructor\<close>

text \<open>
  \<open>new XHEKernel()\<close> over a given \<open>localStorage\<close>: \<open>_initializeKernel\<close>. The result is
  the constructed kernel, or the error raised together with the storage as the constructor
  left it.
\<close>

definition initializeKernel :: "env \<Rightarrow> boot_in \<Rightarrow> store \<Rightarrow> (error \<times> store) + kernel" where
  "initializeKernel e b st =
     (let isNewKernel = (s_meta st = None);
          meta = (case s_meta st of
                    None \<Rightarrow> \<lparr>m_version = ''1.0.0'', m_created = b_created b,
                              m_lastActive = b_lastActive b\<rparr>
                  | Some m \<Rightarrow> m\<lparr>m_lastActive := b_lastActive b\<rparr>);
          st1 = st\<lparr>s_meta := Some meta\<rparr>;
          t0 = \<lparr>v_storage = st1, v_pulseSequence = loadState (s_seq st1) 0,
                v_kernelMeta = Some meta, v_identity = None,
                v_pulseStore = None, v_slipLedger = None\<rparr>;
          (r, t1) = loadOrCreateIdentity e isNewKernel (b_draw b) t0
      in case r of
           Inl err \<Rightarrow> Inl (err, v_storage t1)
         | Inr ident \<Rightarrow>
             (let st2 = v_storage t1;
                  l0 = loadState (s_ledger st2) empty_ledger;
                  l1 = (if no_balance l0 (did ident)
                        then l0\<lparr>balances := AList.update (did ident) 100 (balances l0)\<rparr>
                        else l0);
                  st3 = (if no_balance l0 (did ident) then st2\<lparr>s_ledger := Some l1\<rparr> else st2);
                  t2 = \<lparr>v_storage = st3, v_pulseSequence = v_pulseSequence t1,
                        v_kernelMeta = Some meta, v_identity = Some ident,
                        v_pulseStore = Some (loadState (s_pulses st2) []),
                        v_slipLedger = Some l1\<rparr>;
                  t3 = (if isNewKernel then
                          emitPulseSync e KERNEL_INIT
                            (JObj [(''version'', JStr (m_version meta)),
                                   (''identity'', JStr (did ident))])
                            (b_initTime b) t2
                        else t2)
              in Inr \<lparr>localStorage = v_storage t3,
                      kernelMeta = meta,
                      pulseSequence = v_pulseSequence t3,
                      identity = ident,
                      identityHistory = loadState (s_history st2) [],
                      contentStore = loadState (s_content st2) [],
                      pulseStore = (case v_pulseStore t3 of None \<Rightarrow> [] | Some ps \<Rightarrow> ps),
                      addressIndex = loadState (s_index st2) [],
                      slipLedger = l1,
                      socialGraph = loadState (s_social st2) empty_social,
                      feeds = loadState (s_feeds st2) [],
                      channels = loadState (s_channels st2) []\<rparr>))"

text \<open>
  \<open>regenerateIdentity\<close>: archive the current identity, create a new one
  (\<open>_createIdentity(false)\<close>), emit \<open>IDENTITY_REGENERATE\<close>.
\<close>

definition regenerateIdentity :: "env \<Rightarrow> string \<Rightarrow> identity_draw \<Rightarrow> string \<Rightarrow> kernel \<Rightarrow> (error + identity) \<times> kernel" where
  "regenerateIdentity e archivedTime r tsPulse k =
     (let hist = identityHistory k @
                   [\<lparr>h_identity = identity k, archivedAt = archivedTime,
                     reason = ''USER_REGENERATE''\<rparr>];
          k1 = k\<lparr>identityHistory := hist,
                 localStorage := (localStorage k)\<lparr>s_history := Some hist\<rparr>\<rparr>;
          oldDid = did (identity k1);
          (res, t) = createIdentity e False r (as_this k1)
      in case res of
           Inl err \<Rightarrow> (Inl err, merge_this t k1)
         | Inr ident \<Rightarrow>
             (let k2 = (merge_this t k1)\<lparr>identity := ident\<rparr>;
                  (em, k3) = emitPulse e IDENTITY_REGENERATE
                               (JObj [(''oldDid'', JStr oldDid), (''newDid'', JStr (did ident)),
                                      (''historyLength'', JNum (int (length hist)))])
                               tsPulse k2
              in (Inr (identity k3), k3)))"

subsection \<open>Slips\<close>

text \<open>\<open>getSlipBalance(did = null)\<close>: \<open>did || this.identity.did\<close>, then \<open>balances[target] || 0\<close>.\<close>

definition getSlipBalance :: "kernel \<Rightarrow> string option \<Rightarrow> int" where
  "getSlipBalance k d =
     (let target = (case d of
                      None \<Rightarrow> did (identity k)
                    | Some s \<Rightarrow> if s = [] then did (identity k) else s)
      in case map_of (balances (slipLedger k)) target of
           None \<Rightarrow> 0
         | Some b \<Rightarrow> if b = 0 then 0 else b)"

definition save_ledger :: "ledger \<Rightarrow> kernel \<Rightarrow> kernel" where
  "save_ledger l k = k\<lparr>slipLedger := l, localStorage := (localStorage k)\<lparr>s_ledger := Some l\<rparr>\<rparr>"

definition mintSlips :: "env \<Rightarrow> int \<Rightarrow> string \<Rightarrow> string \<Rightarrow> string \<Rightarrow> string \<Rightarrow> kernel \<Rightarrow> (error + tx) \<times> kernel" where
  "mintSlips e amount why txId ts tsPulse k =
     (if amount \<le> 0 then (Inl ValidationError, k)
      else
        (let me = did (identity k);
             t = \<lparr>t_id = txId, t_type = MINT, t_from = None, t_to = me, t_amount = amount,
                  t_reason = Some why, t_memo = None, t_timestamp = ts,
                  t_address = ''slip://'' @ txId\<rparr>;
             l = slipLedger k;
             newBalance = (case map_of (balances l) me of
                             None \<Rightarrow> 0
                           | Some b \<Rightarrow> if b = 0 then 0 else b) + amount;
             l1 = l\<lparr>balances := AList.update me newBalance (balances l),
                    transactions := transactions l @ [t]\<rparr>;
             k1 = save_ledger l1 k;
             (em, k2) = emitPulse e SLIP_MINT
                          (JObj [(''amount'', JNum amount), (''reason'', JStr why),
                                 (''newBalance'', JNum newBalance)])
                          tsPulse k1
         in (Inr t, k2)))"

text \<open>
  \<open>transferSlips\<close>. Past the two guards the sender holds an entry (its balance is at least
  \<open>amount > 0\<close>), so \<open>balances[me] -= amount\<close> subtracts from a number.
\<close>

definition transferSlips :: "env \<Rightarrow> string \<Rightarrow> int \<Rightarrow> string \<Rightarrow> string \<Rightarrow> string \<Rightarrow> string \<Rightarrow> kernel \<Rightarrow> (error + tx) \<times> kernel" where
  "transferSlips e toDid amount memo txId ts tsPulse k =
     (if amount \<le> 0 then (Inl ValidationError, k)
      else
        (let fromBalance = getSlipBalance k None in
         if fromBalance < amount then (Inl InsufficientBalanceError, k)
         else
           (let me = did (identity k);
                t = \<lparr>t_id = txId, t_type = TRANSFER, t_from = Some me, t_to = toDid,
                     t_amount = amount, t_reason = None, t_memo = Some memo,
                     t_timestamp = ts, t_address = ''slip://'' @ txId\<rparr>;
                l = slipLedger k;
                b1 = AList.update me (fromBalance - amount) (balances l);
                b2 = AList.update toDid
                       ((case map_of b1 toDid of
                           None \<Rightarrow> 0
                         | Some b \<Rightarrow> if b = 0 then 0 else b) + amount) b1;
                l1 = l\<lparr>balances := b2, transactions := transactions l @ [t]\<rparr>;
                k1 = save_ledger l1 k;
                (em, k2) = emitPulse e SLIP_TRANSFER
                             (JObj [(''to'', JStr (take 20 toDid @ ''...'')),
                                    (''amount'', JNum amount), (''memo'', JStr memo)])
                             tsPulse k1
            in (Inr t, k2))))"

subsection \<open>Address generation\<close>

record generated =
  g_address :: string
  g_hash :: string
  g_timestamp :: string
  g_pulseId :: string

text \<open>
  The part of \<open>generateAddress\<close> after the \<open>switch\<close>: write the content store and the
  address index, emit \<open>ADDRESS_GENERATE\<close>.
\<close>

definition storeGenerated :: "env \<Rightarrow> string \<Rightarrow> string \<Rightarrow> string \<Rightarrow> string \<Rightarrow> string \<Rightarrow> string \<Rightarrow> kernel \<Rightarrow> (error + generated) \<times> kernel" where
  "storeGenerated e content schemeArg h address ts tsPulse k =
     (let cs = AList.update h
                 \<lparr>c_content = content, c_timestamp = ts, c_author = did (identity k),
                  c_scheme = schemeArg, c_postMeta = None\<rparr> (contentStore k);
          k1 = k\<lparr>contentStore := cs, localStorage := (localStorage k)\<lparr>s_content := Some cs\<rparr>\<rparr>;
          ix = AList.update address
                 \<lparr>i_hash = h, i_type = schemeArg, i_timestamp = ts,
                  i_preview = take 50 content @ (if 50 < length content then ''...'' else [])\<rparr>
                 (addressIndex k1);
          k2 = k1\<lparr>addressIndex := ix, localStorage := (localStorage k1)\<lparr>s_index := Some ix\<rparr>\<rparr>;
          (em, k3) = emitPulse e ADDRESS_GENERATE
                       (JObj [(''address'', JStr address), (''scheme'', JStr schemeArg),
                              (''hash'', JStr (take 16 h @ ''...''))])
                       tsPulse k2
      in (Inr \<lparr>g_address = address, g_hash = h, g_timestamp = ts, g_pulseId = e_pulseId em\<rparr>,
          k3))"

text \<open>
  \<open>generateAddress(content, scheme, options)\<close>; \<open>optSequence\<close> is \<open>options.sequence\<close>
  (\<open>options.sequence || this._getNextSequence()\<close>: an empty string counts as absent).
\<close>

definition generateAddress :: "env \<Rightarrow> string \<Rightarrow> string \<Rightarrow> string option \<Rightarrow> string \<Rightarrow> string \<Rightarrow> kernel \<Rightarrow> (error + generated) \<times> kernel" where
  "generateAddress e content schemeArg optSequence ts tsPulse k =
     (if content = [] then (Inl ValidationError, k)
      else
        (let h = sha256 e content in
         if schemeArg = ''xhe'' then
           storeGenerated e content schemeArg h (''xhe://'' @ h) ts tsPulse k
         else if schemeArg = ''did:xhe'' then
           storeGenerated e content schemeArg h (''did:xhe:'' @ take 32 h) ts tsPulse k
         else if schemeArg = ''pulse'' then
           (let (sq, k1) = (case optSequence of
                              None \<Rightarrow> getNextSequence k
                            | Some s \<Rightarrow> if s = [] then getNextSequence k else (s, k))
            in storeGenerated e content schemeArg h (''pulse://'' @ sq @ ''/'' @ h) ts tsPulse k1)
         else if schemeArg = ''ipfs'' then
           storeGenerated e content schemeArg h (''ipfs://'' @ h) ts tsPulse k
         else (Inl UnknownSchemeError, k)))"

subsection \<open>Address resolution\<close>

record resolution =
  r_state :: resolution_state
  r_type :: string
  r_content :: "string option"
  r_error :: "string option"
  r_metadata :: "json option"
  r_address :: string

definition json_opt :: "string option \<Rightarrow> json" where
  "json_opt x = (case x of None \<Rightarrow> JNull | Some s \<Rightarrow> JStr s)"

definition json_of_pulse :: "pulse \<Rightarrow> json" where
  "json_of_pulse p =
     JObj [(''type'', JStr (pulse_type_name (p_type p))), (''payload'', p_payload p),
           (''timestamp'', JStr (p_timestamp p)), (''author'', JStr (p_author p)),
           (''sequence'', JStr (p_sequence p)), (''kernelVersion'', JStr (p_kernelVersion p)),
           (''hash'', JStr (p_hash p)), (''address'', JStr (p_address p)),
           (''id'', JStr (p_id p))]"

definition json_of_tx :: "tx \<Rightarrow> json" where
  "json_of_tx t =
     JObj ([(''id'', JStr (t_id t)),
            (''type'', JStr (case t_type t of MINT \<Rightarrow> ''MINT'' | TRANSFER \<Rightarrow> ''TRANSFER''))]
           @ (case t_from t of None \<Rightarrow> [] | Some f \<Rightarrow> [(''from'', JStr f)])
           @ [(''to'', JStr (t_to t)), (''amount'', JNum (t_amount t))]
           @ (case t_reason t of None \<Rightarrow> [] | Some r \<Rightarrow> [(''reason'', JStr r)])
           @ (case t_memo t of None \<Rightarrow> [] | Some m \<Rightarrow> [(''memo'', JStr m)])
           @ [(''timestamp'', JStr (t_timestamp t)), (''address'', JStr (t_address t))])"

definition json_of_post :: "post \<Rightarrow> json" where
  "json_of_post p =
     JObj [(''id'', JStr (po_id p)), (''type'', JStr ''POST''),
           (''content'', JStr (po_content p)), (''hash'', JStr (po_hash p)),
           (''author'', JStr (po_author p)), (''timestamp'', JStr (po_timestamp p)),
           (''replyTo'', json_opt (po_replyTo p)), (''repostOf'', json_opt (po_repostOf p)),
           (''channel'', json_opt (po_channel p)), (''address'', JStr (po_address p))]"

definition json_of_feed :: "feed \<Rightarrow> json" where
  "json_of_feed f =
     JObj [(''id'', JStr (f_id f)), (''owner'', JStr (f_owner f)),
           (''posts'', JArr (map json_of_post (f_posts f))),
           (''created'', JStr (f_created f))]"

definition json_of_channel :: "channel \<Rightarrow> json" where
  "json_of_channel c =
     JObj [(''id'', JStr (ch_id c)), (''name'', JStr (ch_name c)),
           (''description'', JStr (ch_description c)), (''owner'', JStr (ch_owner c)),
           (''created'', JStr (ch_created c)),
           (''posts'', JArr (map json_of_post (ch_posts c))),
           (''members'', JArr (map JStr (ch_members c))),
           (''address'', JStr (ch_address c))]"

definition json_of_index_entry :: "index_entry \<Rightarrow> json" where
  "json_of_index_entry x =
     JObj [(''hash'', JStr (i_hash x)), (''type'', JStr (i_type x)),
           (''timestamp'', JStr (i_timestamp x)), (''preview'', JStr (i_preview x))]"

definition resolveContentAddress :: "kernel \<Rightarrow> string \<Rightarrow> parsed \<Rightarrow> resolution" where
  "resolveContentAddress k address p =
     (case map_of (contentStore k) (hash p) of
        Some entry \<Rightarrow>
          \<lparr>r_state = RESOLVED, r_type = scheme_name (scheme p),
           r_content = Some (c_content entry), r_error = None,
           r_metadata = Some (JObj [(''timestamp'', JStr (c_timestamp entry)),
                                    (''author'', JStr (c_author entry)),
                                    (''scheme'', JStr (c_scheme entry))]),
           r_address = address\<rparr>
      | None \<Rightarrow>
          (case map_of (addressIndex k) address of
             Some x \<Rightarrow>
               \<lparr>r_state = KNOWN_BUT_UNAVAILABLE, r_type = scheme_name (scheme p),
                r_content = None,
                r_error = Some ''Address known but content not available locally'',
                r_metadata = Some (json_of_index_entry x), r_address = address\<rparr>
           | None \<Rightarrow>
               \<lparr>r_state = UNKNOWN, r_type = scheme_name (scheme p), r_content = None,
                r_error = Some ''Address not found in kernel state'',
                r_metadata = None, r_address = address\<rparr>))"

definition resolveIdentityAddress :: "env \<Rightarrow> kernel \<Rightarrow> string \<Rightarrow> parsed \<Rightarrow> resolution" where
  "resolveIdentityAddress e k address p =
     (if address = did (identity k) then
        \<lparr>r_state = RESOLVED, r_type = ''did:xhe'',
         r_content = Some (stringify2 e
           (JObj [(''did'', JStr (did (identity k))),
                  (''publicKey'', JStr (publicKey (identity k))),
                  (''created'', JStr (created (identity k))),
                  (''slipBalance'', JNum (getSlipBalance k None))])),
         r_error = None,
         r_metadata = Some (JObj [(''isOwn'', JBool True),
                                  (''created'', JStr (created (identity k)))]),
         r_address = address\<rparr>
      else
        (case find (\<lambda>h. did (h_identity h) = address) (identityHistory k) of
           Some historical \<Rightarrow>
             \<lparr>r_state = KNOWN_BUT_UNAVAILABLE, r_type = ''did:xhe'', r_content = None,
              r_error = Some ''Historical identity (no longer active)'',
              r_metadata = Some (JObj [(''archivedAt'', JStr (archivedAt historical)),
                                       (''reason'', JStr (reason historical))]),
              r_address = address\<rparr>
         | None \<Rightarrow>
             if address \<in> set (following (socialGraph k))
                \<or> address \<in> set (followers (socialGraph k)) then
               \<lparr>r_state = KNOWN_BUT_UNAVAILABLE, r_type = ''did:xhe'', r_content = None,
                r_error = Some ''Known identity but full data not available locally'',
                r_metadata = None, r_address = address\<rparr>
             else
               \<lparr>r_state = UNKNOWN, r_type = ''did:xhe'', r_content = None,
                r_error = Some ''Identity not found in kernel state'',
                r_metadata = None, r_address = address\<rparr>))"

text \<open>\<open>parsed.sequence ? `${parsed.sequence}/${parsed.hash}` : parsed.hash\<close>\<close>

definition pulseKey :: "parsed \<Rightarrow> string" where
  "pulseKey p =
     (case sequence p of
        None \<Rightarrow> hash p
      | Some s \<Rightarrow> if s = [] then hash p else s @ ''/'' @ hash p)"

definition resolvePulseAddress :: "env \<Rightarrow> kernel \<Rightarrow> string \<Rightarrow> parsed \<Rightarrow> resolution" where
  "resolvePulseAddress e k address p =
     (case map_of (pulseStore k) (pulseKey p) of
        Some pl \<Rightarrow>
          \<lparr>r_state = RESOLVED, r_type = ''pulse'',
           r_content = Some (stringify2 e (json_of_pulse pl)), r_error = None,
           r_metadata = Some (JObj [(''type'', JStr (pulse_type_name (p_type pl))),
                                    (''author'', JStr (p_author pl)),
                                    (''timestamp'', JStr (p_timestamp pl)),
                                    (''sequence'', JStr (p_sequence pl))]),
           r_address = address\<rparr>
      | None \<Rightarrow>
          \<lparr>r_state = UNKNOWN, r_type = ''pulse'', r_content = None,
           r_error = Some ''Pulse not found in kernel state'',
           r_metadata = None, r_address = address\<rparr>)"

definition resolveSlipAddress :: "env \<Rightarrow> kernel \<Rightarrow> string \<Rightarrow> parsed \<Rightarrow> resolution" where
  "resolveSlipAddress e k address p =
     (case find (\<lambda>t. t_id t = hash p) (transactions (slipLedger k)) of
        Some t \<Rightarrow>
          \<lparr>r_state = RESOLVED, r_type = ''slip'',
           r_content = Some (stringify2 e (json_of_tx t)), r_error = None,
           r_metadata = Some (json_of_tx t), r_address = address\<rparr>
      | None \<Rightarrow>
          \<lparr>r_state = UNKNOWN, r_type = ''slip'', r_content = None,
           r_error = Some ''Slip transaction not found'',
           r_metadata = None, r_address = address\<rparr>)"

definition resolveFeedAddress :: "env \<Rightarrow> kernel \<Rightarrow> string \<Rightarrow> parsed \<Rightarrow> resolution" where
  "resolveFeedAddress e k address p =
     (case map_of (feeds k) (hash p) of
        Some f \<Rightarrow>
          \<lparr>r_state = RESOLVED, r_type = ''feed'',
           r_content = Some (stringify2 e (json_of_feed f)), r_error = None,
           r_metadata = Some (json_of_feed f), r_address = address\<rparr>
      | None \<Rightarrow>
          \<lparr>r_state = UNKNOWN, r_type = ''feed'', r_content = None,
           r_error = Some ''Feed not found'', r_metadata = None, r_address = address\<rparr>)"

definition resolveChannelAddress :: "env \<Rightarrow> kernel \<Rightarrow> string \<Rightarrow> parsed \<Rightarrow> resolution" where
  "resolveChannelAddress e k address p =
     (case map_of (channels k) (hash p) of
        Some c \<Rightarrow>
          \<lparr>r_state = RESOLVED, r_type = ''channel'',
           r_content = Some (stringify2 e (json_of_channel c)), r_error = None,
           r_metadata = Some (json_of_channel c), r_address = address\<rparr>
      | None \<Rightarrow>
          \<lparr>r_state = UNKNOWN, r_type = ''channel'', r_content = None,
           r_error = Some ''Channel not found'', r_metadata = None, r_address = address\<rparr>)"

text \<open>
  \<open>resolveAddress\<close>: parse; on failure answer \<open>INVALID\<close> at once; otherwise emit
  \<open>ADDRESS_RESOLVE\<close> and dispatch on the scheme. Every scheme the parser returns has its
  own \<open>case\<close>, so the \<open>default\<close> branch of the \<open>switch\<close> is never taken.
\<close>

definition resolveAddress :: "env \<Rightarrow> string \<Rightarrow> string \<Rightarrow> kernel \<Rightarrow> resolution \<times> kernel" where
  "resolveAddress e address tsPulse k =
     (case parseAddress address of
        None \<Rightarrow>
          (\<lparr>r_state = INVALID, r_type = ''unknown'', r_content = None,
            r_error = Some ''Malformed address format'', r_metadata = None,
            r_address = address\<rparr>, k)
      | Some p \<Rightarrow>
          (let (em, k1) = emitPulse e ADDRESS_RESOLVE
                            (JObj [(''address'', JStr (take 40 address)),
                                   (''scheme'', JStr (scheme_name (scheme p)))])
                            tsPulse k
           in ((case scheme p of
                  XHE \<Rightarrow> resolveContentAddress k1 address p
                | IPFS \<Rightarrow> resolveContentAddress k1 address p
                | DID_XHE \<Rightarrow> resolveIdentityAddress e k1 address p
                | PULSE \<Rightarrow> resolvePulseAddress e k1 address p
                | SLIP \<Rightarrow> resolveSlipAddress e k1 address p
                | FEED \<Rightarrow> resolveFeedAddress e k1 address p
                | CHANNEL \<Rightarrow> resolveChannelAddress e k1 address p), k1)))"

definition clearAddressIndex :: "kernel \<Rightarrow> kernel" where
  "clearAddressIndex k =
     k\<lparr>addressIndex := [], localStorage := (localStorage k)\<lparr>s_index := Some []\<rparr>\<rparr>"

subsection \<open>Posts, channels and the social graph\<close>

text \<open>\<open>x || null\<close> for an optional string argument.\<close>

definition or_null :: "string option \<Rightarrow> string option" where
  "or_null x = (case x of None \<Rightarrow> None | Some s \<Rightarrow> if s = [] then None else Some s)"

definition createPost :: "env \<Rightarrow> string \<Rightarrow> string option \<Rightarrow> string option \<Rightarrow> string option \<Rightarrow> string \<Rightarrow> string \<Rightarrow> string \<Rightarrow> kernel \<Rightarrow> (error + post) \<times> kernel" where
  "createPost e content replyTo repostOf chan postId ts tsPulse k =
     (if content = [] then (Inl ValidationError, k)
      else
        (let h = sha256 e content;
             me = did (identity k);
             p = \<lparr>po_id = postId, po_content = content, po_hash = h, po_author = me,
                  po_timestamp = ts, po_replyTo = or_null replyTo,
                  po_repostOf = or_null repostOf, po_channel = or_null chan,
                  po_address = ''xhe://'' @ h\<rparr>;
             cs = AList.update h
                    \<lparr>c_content = content, c_timestamp = ts, c_author = me,
                     c_scheme = ''xhe'', c_postMeta = Some (postId, ''POST'')\<rparr>
                    (contentStore k);
             k1 = k\<lparr>contentStore := cs,
                    localStorage := (localStorage k)\<lparr>s_content := Some cs\<rparr>\<rparr>;
             feedId = ''personal_'' @ slice 8 16 me;
             f0 = (case map_of (feeds k1) feedId of
                     None \<Rightarrow> \<lparr>f_id = feedId, f_owner = me, f_posts = [], f_created = ts\<rparr>
                   | Some f \<Rightarrow> f);
             fs = AList.update feedId (f0\<lparr>f_posts := p # f_posts f0\<rparr>) (feeds k1);
             k2 = k1\<lparr>feeds := fs, localStorage := (localStorage k1)\<lparr>s_feeds := Some fs\<rparr>\<rparr>;
             k3 = (case or_null chan of
                     None \<Rightarrow> k2
                   | Some c \<Rightarrow>
                       (case map_of (channels k2) c of
                          None \<Rightarrow> k2
                        | Some ch \<Rightarrow>
                            (let chs = AList.update c (ch\<lparr>ch_posts := p # ch_posts ch\<rparr>)
                                         (channels k2)
                             in k2\<lparr>channels := chs,
                                   localStorage := (localStorage k2)\<lparr>s_channels := Some chs\<rparr>\<rparr>)));
             pulseType = (if or_null replyTo \<noteq> None then POST_REPLY
                          else if or_null repostOf \<noteq> None then POST_REPOST
                          else POST_CREATE);
             (em, k4) = emitPulse e pulseType
                          (JObj [(''postId'', JStr postId), (''hash'', JStr (take 16 h)),
                                 (''preview'', JStr (take 50 content))])
                          tsPulse k3
         in (Inr p, k4)))"

definition createChannel :: "env \<Rightarrow> string \<Rightarrow> string \<Rightarrow> string \<Rightarrow> string \<Rightarrow> string \<Rightarrow> kernel \<Rightarrow> channel \<times> kernel" where
  "createChannel e name description channelId ts tsPulse k =
     (let c = \<lparr>ch_id = channelId, ch_name = name, ch_description = description,
               ch_owner = did (identity k), ch_created = ts, ch_posts = [],
               ch_members = [did (identity k)], ch_address = ''channel://'' @ channelId\<rparr>;
          chs = AList.update channelId c (channels k);
          k1 = k\<lparr>channels := chs, localStorage := (localStorage k)\<lparr>s_channels := Some chs\<rparr>\<rparr>;
          (em, k2) = emitPulse e CHANNEL_CREATE
                       (JObj [(''channelId'', JStr channelId), (''name'', JStr name)])
                       tsPulse k1
      in (c, k2))"

text \<open>
  \<open>follow(did)\<close>. The result is \<open>Inr None\<close> where the source returns without a value (the
  identity is followed already) and \<open>Inr (Some graph)\<close> where it returns the social graph.
\<close>

definition follow :: "env \<Rightarrow> string \<Rightarrow> string \<Rightarrow> kernel \<Rightarrow> (error + social option) \<times> kernel" where
  "follow e d tsPulse k =
     (if d = did (identity k) then (Inl SelfFollowError, k)
      else if d \<in> set (following (socialGraph k)) then (Inr None, k)
      else if d \<in> set (blocked (socialGraph k)) then (Inl BlockedIdentityError, k)
      else
        (let g = (socialGraph k)\<lparr>following := following (socialGraph k) @ [d]\<rparr>;
             k1 = k\<lparr>socialGraph := g, localStorage := (localStorage k)\<lparr>s_social := Some g\<rparr>\<rparr>;
             (em, k2) = emitPulse e FOLLOW (JObj [(''target'', JStr d)]) tsPulse k1
         in (Inr (Some (socialGraph k2)), k2)))"

definition unfollow :: "env \<Rightarrow> string \<Rightarrow> string \<Rightarrow> kernel \<Rightarrow> social \<times> kernel" where
  "unfollow e d tsPulse k =
     (let g = (socialGraph k)\<lparr>following := filter (\<lambda>x. x \<noteq> d) (following (socialGraph k))\<rparr>;
          k1 = k\<lparr>socialGraph := g, localStorage := (localStorage k)\<lparr>s_social := Some g\<rparr>\<rparr>;
          (em, k2) = emitPulse e UNFOLLOW (JObj [(''target'', JStr d)]) tsPulse k1
      in (socialGraph k2, k2))"

text \<open>\<open>getStats().pulseCount\<close>: \<open>Object.keys(this.pulseStore).length\<close>.\<close>

definition pulseCount :: "kernel \<Rightarrow> nat" where
  "pulseCount k = length (pulseStore k)"

subsection \<open>Export, import and reset\<close>

record snapshot =
  x_version :: int
  x_exported :: string
  x_kernelMeta :: kernel_meta
  x_identity :: identity
  x_identityHistory :: "history_entry list"
  x_pulseSequence :: nat
  x_contentStore :: "(string \<times> content_entry) list"
  x_pulseStore :: "(string \<times> pulse) list"
  x_addressIndex :: "(string \<times> index_entry) list"
  x_slipLedger :: ledger
  x_socialGraph :: social
  x_feeds :: "(string \<times> feed) list"
  x_channels :: "(string \<times> channel) list"

definition exportKernelState :: "string \<Rightarrow> kernel \<Rightarrow> snapshot" where
  "exportKernelState ts k =
     \<lparr>x_version = 2, x_exported = ts, x_kernelMeta = kernelMeta k, x_identity = identity k,
      x_identityHistory = identityHistory k, x_pulseSequence = pulseSequence k,
      x_contentStore = contentStore k, x_pulseStore = pulseStore k,
      x_addressIndex = addressIndex k, x_slipLedger = slipLedger k,
      x_socialGraph = socialGraph k, x_feeds = feeds k, x_channels = channels k\<rparr>"

text \<open>
  What \<open>importKernelState\<close> reads of the parsed JSON: \<open>version\<close> (\<open>None\<close> when it is
  missing or not a number), \<open>entries\<close> (the old format) and the three stores, each
  \<open>None\<close> when absent.
\<close>

record import_data =
  d_version :: "int option"
  d_entries :: "(string \<times> index_entry) list option"
  d_contentStore :: "(string \<times> content_entry) list option"
  d_addressIndex :: "(string \<times> index_entry) list option"
  d_pulseStore :: "(string \<times> pulse) list option"

text \<open>\<open>JSON.parse\<close> of an exported snapshot, as far as the import reads it.\<close>

definition parse_snapshot :: "snapshot \<Rightarrow> import_data" where
  "parse_snapshot x =
     \<lparr>d_version = Some (x_version x), d_entries = None,
      d_contentStore = Some (x_contentStore x),
      d_addressIndex = Some (x_addressIndex x),
      d_pulseStore = Some (x_pulseStore x)\<rparr>"

text \<open>\<open>Object.entries(src).forEach(([key, v]) => { if (!target[key]) target[key] = v })\<close>\<close>

definition merge_missing :: "(string \<times> 'v) list \<Rightarrow> (string \<times> 'v) list \<Rightarrow> (string \<times> 'v) list" where
  "merge_missing src target =
     fold (\<lambda>(key, v) t. if map_of t key = None then AList.update key v t else t) src target"

text \<open>The number of times the loop over \<open>data.contentStore\<close> runs \<open>imported++\<close>.\<close>

fun count_missing :: "(string \<times> 'v) list \<Rightarrow> (string \<times> 'v) list \<Rightarrow> nat" where
  "count_missing [] target = 0"
| "count_missing ((key, v) # src) target =
     (if map_of target key = None
      then Suc (count_missing src (AList.update key v target))
      else count_missing src target)"

text \<open>\<open>Object.assign(target, src)\<close>\<close>

definition object_assign :: "(string \<times> 'v) list \<Rightarrow> (string \<times> 'v) list \<Rightarrow> (string \<times> 'v) list" where
  "object_assign target src = fold (\<lambda>(key, v) t. AList.update key v t) src target"

text \<open>The object returned: \<open>{imported, migrated}\<close> or \<open>{imported, errors}\<close>.\<close>

record import_result =
  imported :: nat
  migrated :: "bool option"
  errors :: "string list option"

text \<open>
  \<open>importKernelState(jsonString)\<close>; the argument is \<open>None\<close> when the \<open>try\<close> block raises
  (the string is not JSON, or not an object), with \<open>msg\<close> the message of that exception.
\<close>

definition importKernelState :: "string \<Rightarrow> import_data option \<Rightarrow> kernel \<Rightarrow> import_result \<times> kernel" where
  "importKernelState msg dat k =
     (case dat of
        None \<Rightarrow> (\<lparr>imported = 0, migrated = None, errors = Some [msg]\<rparr>, k)
      | Some d \<Rightarrow>
          (case (if d_version d \<noteq> Some 2 then d_entries d else None) of
             Some entries \<Rightarrow>
               (let ix = object_assign (addressIndex k) entries
                in (\<lparr>imported = length entries, migrated = Some True, errors = None\<rparr>,
                    k\<lparr>addressIndex := ix,
                      localStorage := (localStorage k)\<lparr>s_index := Some ix\<rparr>\<rparr>))
           | None \<Rightarrow>
             (let n = (case d_contentStore d of
                         None \<Rightarrow> 0
                       | Some src \<Rightarrow> count_missing src (contentStore k));
                  k1 = (case d_contentStore d of
                          None \<Rightarrow> k
                        | Some src \<Rightarrow>
                            (let cs = merge_missing src (contentStore k)
                             in k\<lparr>contentStore := cs,
                                  localStorage := (localStorage k)\<lparr>s_content := Some cs\<rparr>\<rparr>));
                  k2 = (case d_addressIndex d of
                          None \<Rightarrow> k1
                        | Some src \<Rightarrow>
                            (let ix = merge_missing src (addressIndex k1)
                             in k1\<lparr>addressIndex := ix,
                                   localStorage := (localStorage k1)\<lparr>s_index := Some ix\<rparr>\<rparr>));
                  k3 = (case d_pulseStore d of
                          None \<Rightarrow> k2
                        | Some src \<Rightarrow>
                            (let ps = merge_missing src (pulseStore k2)
                             in k2\<lparr>pulseStore := ps,
                                   localStorage := (localStorage k2)\<lparr>s_pulses := Some ps\<rparr>\<rparr>))
              in (\<lparr>imported = n, migrated = None, errors = Some []\<rparr>, k3))))"

text \<open>
  \<open>resetKernel(preserveIdentity)\<close>: emit \<open>KERNEL_RESET\<close>, remove every storage key (but
  the identity and its history when they are preserved), set the stores in memory to
  empty, and, unless the identity is preserved, create a new one
  (\<open>_createIdentity(false)\<close>).
\<close>

definition resetKernel :: "env \<Rightarrow> bool \<Rightarrow> string \<Rightarrow> string \<Rightarrow> identity_draw \<Rightarrow> kernel \<Rightarrow> (error + unit) \<times> kernel" where
  "resetKernel e preserveIdentity tsPayload tsPulse r k =
     (let (em, k1) = emitPulse e KERNEL_RESET
                       (JObj [(''preserveIdentity'', JBool preserveIdentity),
                              (''timestamp'', JStr tsPayload)])
                       tsPulse k;
          st = (if preserveIdentity
                then empty_store\<lparr>s_identity := s_identity (localStorage k1),
                                 s_history := s_history (localStorage k1)\<rparr>
                else empty_store);
          k2 = k1\<lparr>localStorage := st, pulseSequence := 0, contentStore := [],
                  pulseStore := [], addressIndex := [], slipLedger := empty_ledger,
                  socialGraph := empty_social, feeds := [], channels := []\<rparr>
      in if preserveIdentity then (Inr (), k2)
         else
           (let k3 = k2\<lparr>identityHistory := []\<rparr>;
                (res, t) = createIdentity e False r (as_this k3)
            in case res of
                 Inl err \<Rightarrow> (Inl err, merge_this t k3)
               | Inr ident \<Rightarrow> (Inr (), (merge_this t k3)\<lparr>identity := ident\<rparr>)))"

subsection \<open>Runs of the kernel over one storage\<close>

text \<open>
  A page either has no kernel object (only the storage exists: at the start, or after the
  constructor raised) or a constructed kernel. Loading the page runs the constructor over
  the storage as it is.
\<close>

datatype machine = Off store | On kernel

datatype op =
    Boot boot_in
  | Generate string string "string option" string string
  | Resolve string string
  | Regenerate string identity_draw string
  | ClearIndex
  | Mint int string string string string
  | Transfer string int string string string string
  | Post string "string option" "string option" "string option" string string string
  | Channel string string string string string
  | Follow string string
  | Unfollow string string
  | Import string "import_data option"
  | Reset bool string string identity_draw

definition boot :: "env \<Rightarrow> boot_in \<Rightarrow> store \<Rightarrow> machine" where
  "boot e b st = (case initializeKernel e b st of Inl (err, st') \<Rightarrow> Off st' | Inr k \<Rightarrow> On k)"

fun apply_op :: "env \<Rightarrow> op \<Rightarrow> kernel \<Rightarrow> machine" where
  "apply_op e (Boot b) k = boot e b (localStorage k)"
| "apply_op e (Generate content sch sq ts tsPulse) k =
     On (snd (generateAddress e content sch sq ts tsPulse k))"
| "apply_op e (Resolve address tsPulse) k = On (snd (resolveAddress e address tsPulse k))"
| "apply_op e (Regenerate archivedTime r tsPulse) k =
     On (snd (regenerateIdentity e archivedTime r tsPulse k))"
| "apply_op e ClearIndex k = On (clearAddressIndex k)"
| "apply_op e (Mint amount why txId ts tsPulse) k =
     On (snd (mintSlips e amount why txId ts tsPulse k))"
| "apply_op e (Transfer toDid amount memo txId ts tsPulse) k =
     On (snd (transferSlips e toDid amount memo txId ts tsPulse k))"
| "apply_op e (Post content replyTo repostOf chan postId ts tsPulse) k =
     On (snd (createPost e content replyTo repostOf chan postId ts tsPulse k))"
| "apply_op e (Channel name description channelId ts tsPulse) k =
     On (snd (createChannel e name description channelId ts tsPulse k))"
| "apply_op e (Follow d tsPulse) k = On (snd (follow e d tsPulse k))"
| "apply_op e (Unfollow d tsPulse) k = On (snd (unfollow e d tsPulse k))"
| "apply_op e (Import msg dat) k = On (snd (importKernelState msg dat k))"
| "apply_op e (Reset preserveIdentity tsPayload tsPulse r) k =
     On (snd (resetKernel e preserveIdentity tsPayload tsPulse r k))"

text \<open>Without a kernel object only loading the page does anything.\<close>

fun step :: "env \<Rightarrow> op \<Rightarrow> machine \<Rightarrow> machine" where
  "step e (Boot b) (Off st) = boot e b st"
| "step e opn (Off st) = Off st"
| "step e opn (On k) = apply_op e opn k"

fun run :: "env \<Rightarrow> op list \<Rightarrow> machine \<Rightarrow> machine" where
  "run e [] m = m"
| "run e (opn # ops) m = run e ops (step e opn m)"

subsection \<open>Observations of a run\<close>

definition machine_store :: "machine \<Rightarrow> store" where
  "machine_store m = (case m of Off st \<Rightarrow> st | On k \<Rightarrow> localStorage k)"

text \<open>The ledger of a page: the kernel's, or without a kernel the one in storage.\<close>

definition machine_ledger :: "machine \<Rightarrow> ledger" where
  "machine_ledger m =
     (case m of Off st \<Rightarrow> loadState (s_ledger st) empty_ledger | On k \<Rightarrow> slipLedger k)"

definition machine_pulses :: "machine \<Rightarrow> (string \<times> pulse) list" where
  "machine_pulses m =
     (case m of Off st \<Rightarrow> loadState (s_pulses st) [] | On k \<Rightarrow> pulseStore k)"

definition machine_counter :: "machine \<Rightarrow> nat" where
  "machine_counter m =
     (case m of Off st \<Rightarrow> loadState (s_seq st) 0 | On k \<Rightarrow> pulseSequence k)"

definition total_balance :: "ledger \<Rightarrow> int" where
  "total_balance l = sum_list (map snd (balances l))"

definition nonneg_balances :: "ledger \<Rightarrow> bool" where
  "nonneg_balances l = list_all (\<lambda>(d, b). 0 \<le> b) (balances l)"

text \<open>
  The slips one operation creates: a genesis grant of 100 (by the constructor for the
  loaded identity, by \<open>_createIdentity\<close> for a new one) where the identity has no balance,
  and the amount of a mint.
\<close>

fun created_by :: "env \<Rightarrow> op \<Rightarrow> machine \<Rightarrow> int" where
  "created_by e (Boot b) m =
     (case boot e b (machine_store m) of
        Off st \<Rightarrow> 0
      | On k \<Rightarrow>
          if no_balance (loadState (s_ledger (machine_store m)) empty_ledger) (did (identity k))
          then 100 else 0)"
| "created_by e (Mint amount why txId ts tsPulse) (On k) = (if 0 < amount then amount else 0)"
| "created_by e (Regenerate archivedTime r tsPulse) (On k) =
     (if no_balance (slipLedger k) (''did:xhe:'' @ r_id r) then 100 else 0)"
| "created_by e (Reset preserveIdentity tsPayload tsPulse r) (On k) =
     (if preserveIdentity then 0 else 100)"
| "created_by e opn m = 0"


fun is_reset :: "op \<Rightarrow> bool" where
  "is_reset (Reset preserveIdentity tsPayload tsPulse r) = True"
| "is_reset opn = False"

fun is_on :: "machine \<Rightarrow> bool" where
  "is_on (On k) = True"
| "is_on (Off st) = False"

text \<open>
  What was granted and minted since the last reset: a reset of a constructed kernel starts
  the count again (\<open>acc\<close> is the count before the run).
\<close>

fun issued_since_reset :: "env \<Rightarrow> int \<Rightarrow> op list \<Rightarrow> machine \<Rightarrow> int" where
  "issued_since_reset e acc [] m = acc"
| "issued_since_reset e acc (opn # ops) m =
     issued_since_reset e
       ((if is_reset opn \<and> is_on m then 0 else acc) + created_by e opn m)
       ops (step e opn m)"

text \<open>The sequence numbers on the stored pulses, in the order of the store.\<close>

definition pulse_numbers :: "(string \<times> pulse) list \<Rightarrow> nat list" where
  "pulse_numbers ps = map (\<lambda>kp. nat_of_digits (p_sequence (snd kp))) ps"

text \<open>
  A stored pulse as the kernel writes it: its key is \<open>sequence/hash\<close>, and its sequence
  field is the rendering of a number between 1 and the counter \<open>c\<close>.
\<close>

definition pulse_entry_ok :: "nat \<Rightarrow> string \<times> pulse \<Rightarrow> bool" where
  "pulse_entry_ok c kp =
     (fst kp = p_sequence (snd kp) @ ''/'' @ p_hash (snd kp)
      \<and> p_sequence (snd kp) = seq_string (nat_of_digits (p_sequence (snd kp)))
      \<and> 1 \<le> nat_of_digits (p_sequence (snd kp))
      \<and> nat_of_digits (p_sequence (snd kp)) \<le> c)"

definition pulses_ok :: "(string \<times> pulse) list \<Rightarrow> nat \<Rightarrow> bool" where
  "pulses_ok ps c = list_all (pulse_entry_ok c) ps"

fun is_import :: "op \<Rightarrow> bool" where
  "is_import (Import msg dat) = True"
| "is_import opn = False"

text \<open>
  A call of \<open>generateAddress\<close> that takes a number from the counter for the address
  itself: the pulse scheme, with content and without a sequence of the caller's.
\<close>

fun allocates_for_address :: "op \<Rightarrow> bool" where
  "allocates_for_address (Generate content sch sq ts tsPulse) =
     (content \<noteq> [] \<and> sch = ''pulse'' \<and> (sq = None \<or> sq = Some []))"
| "allocates_for_address opn = False"

text \<open>The counter and the pulses in storage are the ones in memory.\<close>

definition pulses_persisted :: "machine \<Rightarrow> bool" where
  "pulses_persisted m =
     (loadState (s_seq (machine_store m)) 0 = machine_counter m
      \<and> loadState (s_pulses (machine_store m)) [] = machine_pulses m)"

text \<open>The ledger in storage is the one in memory.\<close>

definition ledger_saved :: "machine \<Rightarrow> bool" where
  "ledger_saved m = (loadState (s_ledger (machine_store m)) empty_ledger = machine_ledger m)"

text \<open>
  The state of the pulse log that every run without an import keeps: counter and pulses
  are persisted, every stored pulse is one the kernel wrote under a number up to the
  counter, and the numbers increase along the store.
\<close>

definition pulse_inv :: "machine \<Rightarrow> bool" where
  "pulse_inv m =
     (pulses_persisted m
      \<and> pulses_ok (machine_pulses m) (machine_counter m)
      \<and> sorted_wrt (<) (pulse_numbers (machine_pulses m)))"

text \<open>The stored pulses carry exactly the numbers 1 up to the counter, in order.\<close>

definition gapless :: "machine \<Rightarrow> bool" where
  "gapless m = (pulse_numbers (machine_pulses m) = [1..<Suc (machine_counter m)])"

text \<open>No blocked identity, in storage or in memory.\<close>

definition nothing_blocked :: "machine \<Rightarrow> bool" where
  "nothing_blocked m =
     (blocked (loadState (s_social (machine_store m)) empty_social) = []
      \<and> (case m of Off st \<Rightarrow> True | On k \<Rightarrow> blocked (socialGraph k) = []))"

subsection \<open>A concrete environment and kernel for examples\<close>

text \<open>
  The theorems below hold for every environment. The examples are evaluated in this one:
  a digest that returns its input, and constant serialisers.
\<close>

definition demo_env :: env where
  "demo_env =
     \<lparr>encode = map (\<lambda>c. of_nat (of_char c)), digest = (\<lambda>bs. bs), btoa = (\<lambda>s. s),
      stringify = (\<lambda>j. ''{}''), stringify2 = (\<lambda>j. ''{}'')\<rparr>"

definition demo_draw :: identity_draw where
  "demo_draw = \<lparr>r_id = ''a1'', r_publicKey = ''b2'', r_created = ''t0'', r_pulseTime = ''t0''\<rparr>"

definition demo_boot :: boot_in where
  "demo_boot = \<lparr>b_created = ''t0'', b_lastActive = ''t1'', b_draw = demo_draw, b_initTime = ''t2''\<rparr>"

definition demo_identity :: identity where
  "demo_identity = \<lparr>did = ''did:xhe:a1'', publicKey = ''b2'', created = ''t0'', version = 1\<rparr>"

definition demo_meta :: kernel_meta where
  "demo_meta = \<lparr>m_version = ''1.0.0'', m_created = ''t0'', m_lastActive = ''t1''\<rparr>"

definition demo_ledger :: ledger where
  "demo_ledger = \<lparr>balances = [(''did:xhe:a1'', 100)], transactions = []\<rparr>"

text \<open>The kernel that loading the page twice over the empty storage constructs.\<close>

definition demo_kernel :: kernel where
  "demo_kernel =
     \<lparr>localStorage = empty_store\<lparr>s_meta := Some demo_meta, s_identity := Some demo_identity,
                                  s_ledger := Some demo_ledger\<rparr>,
      kernelMeta = demo_meta, pulseSequence = 0, identity = demo_identity,
      identityHistory = [], contentStore = [], pulseStore = [], addressIndex = [],
      slipLedger = demo_ledger, socialGraph = empty_social, feeds = [], channels = []\<rparr>"

section \<open>Properties\<close>

subsection \<open>Sequence strings\<close>

lemma digit_val_digit_char: "d < 10 \<Longrightarrow> digit_val (digit_char d) = d"
  by (simp add: digit_val_def digit_char_def)

lemma nat_of_digits_snoc: "nat_of_digits (xs @ [c]) = 10 * nat_of_digits xs + digit_val c"
  by (simp add: nat_of_digits_def)

lemma nat_of_digits_show_nat: "nat_of_digits (show_nat n) = n"
proof (induction n rule: show_nat.induct)
  case (1 n)
  show ?case
  proof (cases "n < 10")
    case True
    then show ?thesis
      by (subst show_nat.simps) (simp add: nat_of_digits_def digit_val_digit_char)
  next
    case False
    with 1 have "nat_of_digits (show_nat (n div 10)) = n div 10" by simp
    with False show ?thesis
      by (subst show_nat.simps) (simp add: nat_of_digits_snoc digit_val_digit_char)
  qed
qed

lemma nat_of_digits_zeros:
  "foldl (\<lambda>a c. 10 * a + digit_val c) 0 (replicate j (CHR ''0'')) = 0"
  by (induction j) (simp_all add: digit_val_def)

text \<open>The eight-digit rendering of the counter reads back as the counter.\<close>

lemma nat_of_digits_seq_string [simp]: "nat_of_digits (seq_string n) = n"
  using nat_of_digits_show_nat [of n]
  by (simp add: seq_string_def padStart_def nat_of_digits_def nat_of_digits_zeros)

lemma seq_string_inj: "seq_string i = seq_string j \<Longrightarrow> i = j"
  using nat_of_digits_seq_string by metis

lemma digit_char_not_slash: "d < 10 \<Longrightarrow> digit_char d \<noteq> CHR ''/''"
proof
  assume "d < 10" and "digit_char d = CHR ''/''"
  then have "of_char (digit_char d) = (of_char (CHR ''/'') :: nat)" by simp
  with \<open>d < 10\<close> show False by (simp add: digit_char_def)
qed

lemma slash_notin_show_nat: "CHR ''/'' \<notin> set (show_nat n)"
proof (induction n rule: show_nat.induct)
  case (1 n)
  show ?case
  proof (cases "n < 10")
    case True
    then show ?thesis
      using digit_char_not_slash [of n] by (subst show_nat.simps) auto
  next
    case False
    with 1 have "CHR ''/'' \<notin> set (show_nat (n div 10))" by simp
    with False show ?thesis
      using digit_char_not_slash [of "n mod 10"] by (subst show_nat.simps) auto
  qed
qed

lemma slash_notin_seq_string: "CHR ''/'' \<notin> set (seq_string n)"
  using slash_notin_show_nat [of n] by (auto simp: seq_string_def padStart_def)

lemma append_slash_eq:
  assumes "a @ ''/'' @ x = b @ ''/'' @ y" "CHR ''/'' \<notin> set a" "CHR ''/'' \<notin> set b"
  shows "a = b"
proof -
  have tw: "CHR ''/'' \<notin> set u \<Longrightarrow> takeWhile (\<lambda>c. c \<noteq> CHR ''/'') (u @ ''/'' @ v) = u"
    for u v
    by (induction u) auto
  have "takeWhile (\<lambda>c. c \<noteq> CHR ''/'') (a @ ''/'' @ x) = a"
    using assms(2) by (rule tw)
  moreover have "takeWhile (\<lambda>c. c \<noteq> CHR ''/'') (b @ ''/'' @ y) = b"
    using assms(3) by (rule tw)
  ultimately show ?thesis using assms(1) by simp
qed

text \<open>Two pulse ids with different sequence numbers differ, whatever their hashes.\<close>

lemma seq_key_inj: "seq_string i @ ''/'' @ x = seq_string j @ ''/'' @ y \<Longrightarrow> i = j"
  using append_slash_eq [OF _ slash_notin_seq_string slash_notin_seq_string]
    seq_string_inj by blast

subsection \<open>Storage reads\<close>

lemma loadState_simps [simp]:
  "loadState None d = d"
  "loadState (Some v) d = v"
  by (simp_all add: loadState_def)

subsection \<open>Association lists\<close>

lemma length_update:
  "length (AList.update key v al) = (if map_of al key = None then Suc (length al) else length al)"
  by (induction al) auto

lemma update_fresh: "map_of al key = None \<Longrightarrow> AList.update key v al = al @ [(key, v)]"
  by (induction al) (auto split: if_splits)

lemma sum_snd_update:
  "sum_list (map snd (AList.update key (v::int) al)) =
     sum_list (map snd al) + v - (case map_of al key of None \<Rightarrow> 0 | Some b \<Rightarrow> b)"
  by (induction al) auto

lemma list_all_update:
  "list_all P al \<Longrightarrow> P (key, v) \<Longrightarrow> list_all P (AList.update key v al)"
  by (induction al) auto

subsection \<open>What emitting a pulse changes\<close>

lemma emitPulse_state:
  "snd (emitPulse e ty payload ts k) =
     k\<lparr>pulseSequence := Suc (pulseSequence k),
       pulseStore := AList.update (e_pulseId (fst (emitPulse e ty payload ts k)))
                       (e_pulse (fst (emitPulse e ty payload ts k))) (pulseStore k),
       localStorage := (localStorage k)
         \<lparr>s_seq := Some (Suc (pulseSequence k)),
          s_pulses := Some (AList.update (e_pulseId (fst (emitPulse e ty payload ts k)))
                              (e_pulse (fst (emitPulse e ty payload ts k))) (pulseStore k))\<rparr>\<rparr>"
  by (simp add: emitPulse_def getNextSequence_def Let_def)

lemma emitPulse_pulse:
  "p_type (e_pulse (fst (emitPulse e ty payload ts k))) = ty"
  "p_sequence (e_pulse (fst (emitPulse e ty payload ts k))) = seq_string (Suc (pulseSequence k))"
  "p_author (e_pulse (fst (emitPulse e ty payload ts k))) = did (identity k)"
  "p_timestamp (e_pulse (fst (emitPulse e ty payload ts k))) = ts"
  "p_payload (e_pulse (fst (emitPulse e ty payload ts k))) = payload"
  "e_pulseId (fst (emitPulse e ty payload ts k)) =
     seq_string (Suc (pulseSequence k)) @ ''/'' @ p_hash (e_pulse (fst (emitPulse e ty payload ts k)))"
  "p_id (e_pulse (fst (emitPulse e ty payload ts k))) = e_pulseId (fst (emitPulse e ty payload ts k))"
  by (simp_all add: emitPulse_def getNextSequence_def Let_def stored_pulse_def)

lemma emitPulse_frame [simp]:
  "slipLedger (snd (emitPulse e ty payload ts k)) = slipLedger k"
  "identity (snd (emitPulse e ty payload ts k)) = identity k"
  "identityHistory (snd (emitPulse e ty payload ts k)) = identityHistory k"
  "kernelMeta (snd (emitPulse e ty payload ts k)) = kernelMeta k"
  "contentStore (snd (emitPulse e ty payload ts k)) = contentStore k"
  "addressIndex (snd (emitPulse e ty payload ts k)) = addressIndex k"
  "socialGraph (snd (emitPulse e ty payload ts k)) = socialGraph k"
  "feeds (snd (emitPulse e ty payload ts k)) = feeds k"
  "channels (snd (emitPulse e ty payload ts k)) = channels k"
  "pulseSequence (snd (emitPulse e ty payload ts k)) = Suc (pulseSequence k)"
  by (simp_all add: emitPulse_state)

lemma emitPulse_storage_frame [simp]:
  "s_ledger (localStorage (snd (emitPulse e ty payload ts k))) = s_ledger (localStorage k)"
  "s_identity (localStorage (snd (emitPulse e ty payload ts k))) = s_identity (localStorage k)"
  "s_history (localStorage (snd (emitPulse e ty payload ts k))) = s_history (localStorage k)"
  "s_meta (localStorage (snd (emitPulse e ty payload ts k))) = s_meta (localStorage k)"
  "s_content (localStorage (snd (emitPulse e ty payload ts k))) = s_content (localStorage k)"
  "s_index (localStorage (snd (emitPulse e ty payload ts k))) = s_index (localStorage k)"
  "s_social (localStorage (snd (emitPulse e ty payload ts k))) = s_social (localStorage k)"
  "s_feeds (localStorage (snd (emitPulse e ty payload ts k))) = s_feeds (localStorage k)"
  "s_channels (localStorage (snd (emitPulse e ty payload ts k))) = s_channels (localStorage k)"
  "s_seq (localStorage (snd (emitPulse e ty payload ts k))) = Some (Suc (pulseSequence k))"
  "s_pulses (localStorage (snd (emitPulse e ty payload ts k))) =
     Some (pulseStore (snd (emitPulse e ty payload ts k)))"
  by (simp_all add: emitPulse_state)

lemma getSlipBalance_emitPulse [simp]:
  "getSlipBalance (snd (emitPulse e ty payload ts k)) d = getSlipBalance k d"
  by (cases d) (simp_all add: getSlipBalance_def)

subsection \<open>Balances\<close>



subsection \<open>Transfers\<close>



subsection \<open>The ledger along a run\<close>


lemma no_balance_total:
  "no_balance l d \<Longrightarrow>
     total_balance (l\<lparr>balances := AList.update d 100 (balances l)\<rparr>) = total_balance l + 100"
  by (auto simp: no_balance_def total_balance_def sum_snd_update split: option.splits)

lemma nonneg_update:
  "nonneg_balances l \<Longrightarrow> 0 \<le> v \<Longrightarrow>
     nonneg_balances (l\<lparr>balances := AList.update d v (balances l)\<rparr>)"
  by (simp add: nonneg_balances_def list_all_update)

lemma nonneg_update_tx:
  "nonneg_balances l \<Longrightarrow> 0 \<le> v \<Longrightarrow>
     nonneg_balances (l\<lparr>balances := AList.update d v (balances l), transactions := ts\<rparr>)"
  by (simp add: nonneg_balances_def list_all_update)

lemma nonneg_lookup:
  "nonneg_balances l \<Longrightarrow> map_of (balances l) d = Some b \<Longrightarrow> 0 \<le> b"
  by (auto simp: nonneg_balances_def list_all_iff dest!: map_of_SomeD)

lemma createIdentity_constructed:
  "createIdentity e False r (as_this k) =
     (Inr \<lparr>did = ''did:xhe:'' @ r_id r, publicKey = r_publicKey r, created = r_created r, version = 1\<rparr>,
      (if no_balance (slipLedger k) (''did:xhe:'' @ r_id r) then
         (as_this k)\<lparr>v_slipLedger := Some ((slipLedger k)\<lparr>balances := AList.update (''did:xhe:'' @ r_id r) 100 (balances (slipLedger k))\<rparr>),
                     v_storage := (localStorage k)\<lparr>s_identity := Some \<lparr>did = ''did:xhe:'' @ r_id r, publicKey = r_publicKey r, created = r_created r, version = 1\<rparr>,
                       s_ledger := Some ((slipLedger k)\<lparr>balances := AList.update (''did:xhe:'' @ r_id r) 100 (balances (slipLedger k))\<rparr>)\<rparr>\<rparr>
       else (as_this k)\<lparr>v_storage := (localStorage k)\<lparr>s_identity := Some \<lparr>did = ''did:xhe:'' @ r_id r, publicKey = r_publicKey r, created = r_created r, version = 1\<rparr>\<rparr>\<rparr>))"
  by (simp add: createIdentity_def as_this_def Let_def)

lemma generateAddress_ledger:
  "slipLedger (snd (generateAddress e content sch sq ts tsPulse k)) = slipLedger k"
  "s_ledger (localStorage (snd (generateAddress e content sch sq ts tsPulse k))) = s_ledger (localStorage k)"
  by (auto simp: generateAddress_def storeGenerated_def getNextSequence_def Let_def split_beta
           split: option.splits)

lemma resolveAddress_ledger:
  "slipLedger (snd (resolveAddress e address tsPulse k)) = slipLedger k"
  "s_ledger (localStorage (snd (resolveAddress e address tsPulse k))) = s_ledger (localStorage k)"
  by (auto simp: resolveAddress_def Let_def split_beta split: option.splits)

lemma createPost_ledger:
  "slipLedger (snd (createPost e content replyTo repostOf chan postId ts tsPulse k)) = slipLedger k"
  "s_ledger (localStorage (snd (createPost e content replyTo repostOf chan postId ts tsPulse k))) = s_ledger (localStorage k)"
  by (auto simp: createPost_def Let_def split_beta split: option.splits)

lemma createChannel_ledger:
  "slipLedger (snd (createChannel e name description channelId ts tsPulse k)) = slipLedger k"
  "s_ledger (localStorage (snd (createChannel e name description channelId ts tsPulse k))) = s_ledger (localStorage k)"
  by (auto simp: createChannel_def Let_def split_beta)

lemma follow_ledger:
  "slipLedger (snd (follow e d tsPulse k)) = slipLedger k"
  "s_ledger (localStorage (snd (follow e d tsPulse k))) = s_ledger (localStorage k)"
  by (auto simp: follow_def Let_def split_beta)

lemma unfollow_ledger:
  "slipLedger (snd (unfollow e d tsPulse k)) = slipLedger k"
  "s_ledger (localStorage (snd (unfollow e d tsPulse k))) = s_ledger (localStorage k)"
  by (auto simp: unfollow_def Let_def split_beta)

lemma importKernelState_ledger:
  "slipLedger (snd (importKernelState msg dat k)) = slipLedger k"
  "s_ledger (localStorage (snd (importKernelState msg dat k))) = s_ledger (localStorage k)"
  by (auto simp: importKernelState_def Let_def split: option.splits)

lemma clearAddressIndex_ledger:
  "slipLedger (clearAddressIndex k) = slipLedger k"
  "s_ledger (localStorage (clearAddressIndex k)) = s_ledger (localStorage k)"
  by (auto simp: clearAddressIndex_def)

lemma mintSlips_ledger:
  "slipLedger (snd (mintSlips e amount why txId ts tsPulse k)) =
     (if amount \<le> 0 then slipLedger k
      else (slipLedger k)\<lparr>balances := AList.update (did (identity k))
               ((case map_of (balances (slipLedger k)) (did (identity k)) of None \<Rightarrow> 0 | Some b \<Rightarrow> b) + amount)
               (balances (slipLedger k)),
             transactions := transactions (slipLedger k) @
               [\<lparr>t_id = txId, t_type = MINT, t_from = None, t_to = did (identity k), t_amount = amount,
                  t_reason = Some why, t_memo = None, t_timestamp = ts,
                  t_address = ''slip://'' @ txId\<rparr>]\<rparr>)"
  "s_ledger (localStorage (snd (mintSlips e amount why txId ts tsPulse k))) =
     (if amount \<le> 0 then s_ledger (localStorage k)
      else Some (slipLedger (snd (mintSlips e amount why txId ts tsPulse k))))"
  by (auto simp: mintSlips_def Let_def split_beta save_ledger_def split: option.splits)

lemma transferSlips_ledger:
  "slipLedger (snd (transferSlips e toDid amount memo txId ts tsPulse k)) =
     (if amount \<le> 0 \<or> getSlipBalance k None < amount then slipLedger k
      else (slipLedger k)\<lparr>balances :=
               AList.update toDid
                 ((case map_of (AList.update (did (identity k)) (getSlipBalance k None - amount) (balances (slipLedger k))) toDid of
                     None \<Rightarrow> 0 | Some b \<Rightarrow> b) + amount)
                 (AList.update (did (identity k)) (getSlipBalance k None - amount) (balances (slipLedger k))),
             transactions := transactions (slipLedger k) @
               [\<lparr>t_id = txId, t_type = TRANSFER, t_from = Some (did (identity k)), t_to = toDid,
                  t_amount = amount, t_reason = None, t_memo = Some memo, t_timestamp = ts,
                  t_address = ''slip://'' @ txId\<rparr>]\<rparr>)"
  "s_ledger (localStorage (snd (transferSlips e toDid amount memo txId ts tsPulse k))) =
     (if amount \<le> 0 \<or> getSlipBalance k None < amount then s_ledger (localStorage k)
      else Some (slipLedger (snd (transferSlips e toDid amount memo txId ts tsPulse k))))"
  by (auto simp: transferSlips_def Let_def split_beta save_ledger_def split: option.splits)

lemma regenerateIdentity_ledger:
  "slipLedger (snd (regenerateIdentity e archivedTime r tsPulse k)) =
     (if no_balance (slipLedger k) (''did:xhe:'' @ r_id r)
      then (slipLedger k)\<lparr>balances := AList.update (''did:xhe:'' @ r_id r) 100 (balances (slipLedger k))\<rparr>
      else slipLedger k)"
  "s_ledger (localStorage (snd (regenerateIdentity e archivedTime r tsPulse k))) =
     (if no_balance (slipLedger k) (''did:xhe:'' @ r_id r)
      then Some (slipLedger (snd (regenerateIdentity e archivedTime r tsPulse k)))
      else s_ledger (localStorage k))"
  by (auto simp: regenerateIdentity_def Let_def split_beta createIdentity_def as_this_def
                 merge_this_def loadState_def)

lemma resetKernel_ledger:
  "slipLedger (snd (resetKernel e preserveIdentity tsPayload tsPulse r k)) =
     (if preserveIdentity then empty_ledger
      else \<lparr>balances = [(''did:xhe:'' @ r_id r, 100)], transactions = []\<rparr>)"
  "s_ledger (localStorage (snd (resetKernel e preserveIdentity tsPayload tsPulse r k))) =
     (if preserveIdentity then None
      else Some \<lparr>balances = [(''did:xhe:'' @ r_id r, 100)], transactions = []\<rparr>)"
  by (auto simp: resetKernel_def Let_def split_beta createIdentity_def as_this_def
                 merge_this_def loadState_def empty_ledger_def empty_store_def no_balance_def)


lemma boot_Off:
  assumes "boot e b st = Off st'"
  shows "s_ledger st' = s_ledger st" "s_seq st' = s_seq st" "s_pulses st' = s_pulses st"
  using assms
  by (auto simp: boot_def initializeKernel_def loadOrCreateIdentity_def createIdentity_def
                 Let_def split_beta split: option.splits if_splits sum.splits)

lemma boot_On_ledger:
  assumes "boot e b st = On k"
  shows "s_identity st = Some (identity k)"
    and "slipLedger k =
           (if no_balance (loadState (s_ledger st) empty_ledger) (did (identity k))
            then (loadState (s_ledger st) empty_ledger)
                   \<lparr>balances := AList.update (did (identity k)) 100
                                  (balances (loadState (s_ledger st) empty_ledger))\<rparr>
            else loadState (s_ledger st) empty_ledger)"
    and "s_ledger (localStorage k) =
           (if no_balance (loadState (s_ledger st) empty_ledger) (did (identity k))
            then Some (slipLedger k) else s_ledger st)"
  using assms
  by (auto simp: boot_def initializeKernel_def loadOrCreateIdentity_def createIdentity_def
                 emitPulseSync_def Let_def split_beta
           split: option.splits if_splits sum.splits)


lemma total_empty: "total_balance empty_ledger = 0" "nonneg_balances empty_ledger"
  by (simp_all add: total_balance_def nonneg_balances_def empty_ledger_def)

lemma mint_ledger_ok:
  assumes "nonneg_balances l" "0 < amount"
  shows "nonneg_balances (l\<lparr>balances := AList.update d
            ((case map_of (balances l) d of None \<Rightarrow> 0 | Some b \<Rightarrow> b) + amount) (balances l),
            transactions := txs\<rparr>)"
    and "total_balance (l\<lparr>balances := AList.update d
            ((case map_of (balances l) d of None \<Rightarrow> 0 | Some b \<Rightarrow> b) + amount) (balances l),
            transactions := txs\<rparr>) = total_balance l + amount"
proof -
  have "0 \<le> (case map_of (balances l) d of None \<Rightarrow> 0 | Some b \<Rightarrow> b)"
    using assms(1) nonneg_lookup [of l d] by (auto split: option.splits)
  with assms show "nonneg_balances (l\<lparr>balances := AList.update d
            ((case map_of (balances l) d of None \<Rightarrow> 0 | Some b \<Rightarrow> b) + amount) (balances l),
            transactions := txs\<rparr>)"
    by (simp add: nonneg_update_tx)
  show "total_balance (l\<lparr>balances := AList.update d
            ((case map_of (balances l) d of None \<Rightarrow> 0 | Some b \<Rightarrow> b) + amount) (balances l),
            transactions := txs\<rparr>) = total_balance l + amount"
    by (simp add: total_balance_def sum_snd_update)
qed

lemma transfer_ledger_ok:
  assumes "nonneg_balances l" "0 < amount" "map_of (balances l) me = Some bal" "amount \<le> bal"
  shows "nonneg_balances (l\<lparr>balances := AList.update toDid
            ((case map_of (AList.update me (bal - amount) (balances l)) toDid of
                None \<Rightarrow> 0 | Some b \<Rightarrow> b) + amount)
            (AList.update me (bal - amount) (balances l)), transactions := txs\<rparr>)"
    and "total_balance (l\<lparr>balances := AList.update toDid
            ((case map_of (AList.update me (bal - amount) (balances l)) toDid of
                None \<Rightarrow> 0 | Some b \<Rightarrow> b) + amount)
            (AList.update me (bal - amount) (balances l)), transactions := txs\<rparr>) = total_balance l"
proof -
  let ?l1 = "l\<lparr>balances := AList.update me (bal - amount) (balances l)\<rparr>"
  have n1: "nonneg_balances ?l1" using assms by (simp add: nonneg_update)
  have t1: "total_balance ?l1 = total_balance l - amount"
    using assms(3) by (simp add: total_balance_def sum_snd_update)
  from mint_ledger_ok [OF n1 assms(2), where d = toDid and txs = txs]
  show "nonneg_balances (l\<lparr>balances := AList.update toDid
            ((case map_of (AList.update me (bal - amount) (balances l)) toDid of
                None \<Rightarrow> 0 | Some b \<Rightarrow> b) + amount)
            (AList.update me (bal - amount) (balances l)), transactions := txs\<rparr>)"
    and "total_balance (l\<lparr>balances := AList.update toDid
            ((case map_of (AList.update me (bal - amount) (balances l)) toDid of
                None \<Rightarrow> 0 | Some b \<Rightarrow> b) + amount)
            (AList.update me (bal - amount) (balances l)), transactions := txs\<rparr>) = total_balance l"
    using t1 by simp_all
qed

lemma getSlipBalance_entry:
  "0 < amount \<Longrightarrow> amount \<le> getSlipBalance k None \<Longrightarrow>
     map_of (balances (slipLedger k)) (did (identity k)) = Some (getSlipBalance k None)"
  by (auto simp: getSlipBalance_def split: option.splits if_splits)

lemma step_ledger:
  assumes "ledger_saved m" "nonneg_balances (machine_ledger m)"
  shows "ledger_saved (step e opn m)
       \<and> nonneg_balances (machine_ledger (step e opn m))
       \<and> total_balance (machine_ledger (step e opn m)) =
           (if is_reset opn \<and> is_on m then 0 else total_balance (machine_ledger m))
           + created_by e opn m"
proof (cases m)
  case (Off st)
  show ?thesis
  proof (cases opn)
    case (Boot b)
    show ?thesis
    proof (cases "boot e b st")
      case (Off st')
      with boot_Off [OF Off] assms \<open>m = Off st\<close> Boot show ?thesis
        by (simp add: ledger_saved_def machine_ledger_def machine_store_def)
    next
      case (On k)
      with boot_On_ledger [OF On] assms \<open>m = Off st\<close> Boot show ?thesis
        by (auto simp: ledger_saved_def machine_ledger_def machine_store_def no_balance_total
                       nonneg_update loadState_def)
    qed
  qed (use assms Off in \<open>simp_all add: ledger_saved_def machine_ledger_def machine_store_def\<close>)
next
  case (On k)
  then have sv: "loadState (s_ledger (localStorage k)) empty_ledger = slipLedger k"
    and nn: "nonneg_balances (slipLedger k)"
    using assms by (simp_all add: ledger_saved_def machine_ledger_def machine_store_def)
  show ?thesis
  proof (cases opn)
    case (Boot b)
    show ?thesis
    proof (cases "boot e b (localStorage k)")
      case (Off st')
      with boot_Off [OF Off] sv nn \<open>m = On k\<close> Boot show ?thesis
        by (simp add: ledger_saved_def machine_ledger_def machine_store_def)
    next
      case (On k')
      with boot_On_ledger [OF On] sv nn \<open>m = On k\<close> Boot show ?thesis
        by (auto simp: ledger_saved_def machine_ledger_def machine_store_def no_balance_total
                       nonneg_update loadState_def)
    qed
  next
    case (Mint amount why txId ts tsPulse)
    with On sv nn mint_ledger_ok [OF nn, of amount] show ?thesis
      by (auto simp: ledger_saved_def machine_ledger_def machine_store_def mintSlips_ledger
                     loadState_def)
  next
    case (Transfer toDid amount memo txId ts tsPulse)
    show ?thesis
    proof (cases "amount \<le> 0 \<or> getSlipBalance k None < amount")
      case True
      with On sv nn Transfer show ?thesis
        by (auto simp: ledger_saved_def machine_ledger_def machine_store_def transferSlips_ledger)
    next
      case False
      then have a: "0 < amount" "amount \<le> getSlipBalance k None" by auto
      note en = getSlipBalance_entry [OF a]
      from transfer_ledger_ok [OF nn a(1) en a(2)] False On sv Transfer show ?thesis
        by (simp add: ledger_saved_def machine_ledger_def machine_store_def transferSlips_ledger
                      loadState_def)
    qed
  next
    case (Regenerate archivedTime r tsPulse)
    with On sv nn show ?thesis
      by (auto simp: ledger_saved_def machine_ledger_def machine_store_def
                     regenerateIdentity_ledger no_balance_total nonneg_update loadState_def)
  next
    case (Reset preserveIdentity tsPayload tsPulse r)
    with On show ?thesis
      by (auto simp: ledger_saved_def machine_ledger_def machine_store_def resetKernel_ledger
                     loadState_def total_balance_def nonneg_balances_def empty_ledger_def)
  qed (use On sv nn in
        \<open>simp_all add: ledger_saved_def machine_ledger_def machine_store_def
           generateAddress_ledger resolveAddress_ledger clearAddressIndex_ledger
           createPost_ledger createChannel_ledger follow_ledger unfollow_ledger
           importKernelState_ledger\<close>)
qed

lemma run_ledger:
  assumes "ledger_saved m" "nonneg_balances (machine_ledger m)" "total_balance (machine_ledger m) = acc"
  shows "nonneg_balances (machine_ledger (run e ops m))
       \<and> total_balance (machine_ledger (run e ops m)) = issued_since_reset e acc ops m"
  using assms
proof (induction ops arbitrary: m acc)
  case Nil
  then show ?case by simp
next
  case (Cons opn ops)
  from step_ledger [OF Cons.prems(1,2), of e opn] Cons.prems(3)
  have s: "ledger_saved (step e opn m)" "nonneg_balances (machine_ledger (step e opn m))"
    "total_balance (machine_ledger (step e opn m)) =
       (if is_reset opn \<and> is_on m then 0 else acc) + created_by e opn m"
    by simp_all
  from Cons.IH [OF s] show ?case by simp
qed




text \<open>
  In particular the current identity's balance is non-negative in every kernel that a run
  from the empty storage constructs.
\<close>

lemma nonneg_getSlipBalance: "nonneg_balances (slipLedger k) \<Longrightarrow> 0 \<le> getSlipBalance k d"
  by (auto simp: getSlipBalance_def dest: nonneg_lookup split: option.splits)

lemma reachable_balance_nonneg:
  assumes "run e ops (Off empty_store) = On k"
  shows "0 \<le> getSlipBalance k d"
proof -
  have "nonneg_balances (machine_ledger (run e ops (Off empty_store)))"
    using run_ledger [of "Off empty_store" 0 e ops]
    by (simp add: ledger_saved_def machine_ledger_def machine_store_def empty_store_def
                  loadState_def total_empty)
  with assms show ?thesis
    by (simp add: machine_ledger_def nonneg_getSlipBalance)
qed

subsection \<open>The pulse log along a run\<close>

lemma pulses_ok_mono: "pulses_ok ps c \<Longrightarrow> c \<le> c' \<Longrightarrow> pulses_ok ps c'"
  by (auto simp: pulses_ok_def pulse_entry_ok_def list_all_iff)

lemma pulses_ok_fresh:
  assumes "pulses_ok ps c" "c < n"
  shows "map_of ps (seq_string n @ ''/'' @ h) = None"
proof (rule ccontr)
  assume "map_of ps (seq_string n @ ''/'' @ h) \<noteq> None"
  then obtain p where "(seq_string n @ ''/'' @ h, p) \<in> set ps"
    by (auto dest: map_of_SomeD)
  with assms(1) have k: "seq_string n @ ''/'' @ h = p_sequence p @ ''/'' @ p_hash p"
    and s: "p_sequence p = seq_string (nat_of_digits (p_sequence p))"
    and le: "nat_of_digits (p_sequence p) \<le> c"
    by (auto simp: pulses_ok_def pulse_entry_ok_def list_all_iff)
  from k s have "seq_string n @ ''/'' @ h = seq_string (nat_of_digits (p_sequence p)) @ ''/'' @ p_hash p"
    by simp
  then have "n = nat_of_digits (p_sequence p)" by (rule seq_key_inj)
  with le assms(2) show False by simp
qed

lemma pulse_numbers_le:
  "pulses_ok ps c \<Longrightarrow> n \<in> set (pulse_numbers ps) \<Longrightarrow> 1 \<le> n \<and> n \<le> c"
  by (auto simp: pulses_ok_def pulse_entry_ok_def list_all_iff pulse_numbers_def)

lemma append_pulse:
  assumes ok: "pulses_ok ps c" and srt: "sorted_wrt (<) (pulse_numbers ps)"
    and sq: "p_sequence p = seq_string (Suc c)"
  shows "AList.update (seq_string (Suc c) @ ''/'' @ p_hash p) p ps
           = ps @ [(seq_string (Suc c) @ ''/'' @ p_hash p, p)]"
    and "pulses_ok (ps @ [(seq_string (Suc c) @ ''/'' @ p_hash p, p)]) (Suc c)"
    and "sorted_wrt (<) (pulse_numbers (ps @ [(seq_string (Suc c) @ ''/'' @ p_hash p, p)]))"
    and "pulse_numbers (ps @ [(seq_string (Suc c) @ ''/'' @ p_hash p, p)]) = pulse_numbers ps @ [Suc c]"
proof -
  show "AList.update (seq_string (Suc c) @ ''/'' @ p_hash p) p ps
           = ps @ [(seq_string (Suc c) @ ''/'' @ p_hash p, p)]"
    using pulses_ok_fresh [OF ok, of "Suc c"] by (simp add: update_fresh)
  show n: "pulse_numbers (ps @ [(seq_string (Suc c) @ ''/'' @ p_hash p, p)]) = pulse_numbers ps @ [Suc c]"
    by (simp add: pulse_numbers_def sq)
  have "pulses_ok ps (Suc c)" using ok by (rule pulses_ok_mono) simp
  then show "pulses_ok (ps @ [(seq_string (Suc c) @ ''/'' @ p_hash p, p)]) (Suc c)"
    by (simp add: pulses_ok_def pulse_entry_ok_def sq)
  show "sorted_wrt (<) (pulse_numbers (ps @ [(seq_string (Suc c) @ ''/'' @ p_hash p, p)]))"
    unfolding n using srt pulse_numbers_le [OF ok] by (fastforce simp: sorted_wrt_append)
qed

lemma pulse_inv_On:
  "pulse_inv (On k) =
     (loadState (s_seq (localStorage k)) 0 = pulseSequence k
      \<and> loadState (s_pulses (localStorage k)) [] = pulseStore k
      \<and> pulses_ok (pulseStore k) (pulseSequence k)
      \<and> sorted_wrt (<) (pulse_numbers (pulseStore k)))"
  by (simp add: pulse_inv_def pulses_persisted_def machine_store_def machine_pulses_def
                machine_counter_def)

lemma pulse_inv_Off:
  "pulse_inv (Off st) =
     (pulses_ok (loadState (s_pulses st) []) (loadState (s_seq st) 0)
      \<and> sorted_wrt (<) (pulse_numbers (loadState (s_pulses st) [])))"
  by (simp add: pulse_inv_def pulses_persisted_def machine_store_def machine_pulses_def
                machine_counter_def)

lemma gapless_On: "gapless (On k) = (pulse_numbers (pulseStore k) = [1..<Suc (pulseSequence k)])"
  by (simp add: gapless_def machine_pulses_def machine_counter_def)

lemma gapless_Off:
  "gapless (Off st) =
     (pulse_numbers (loadState (s_pulses st) []) = [1..<Suc (loadState (s_seq st) 0)])"
  by (simp add: gapless_def machine_pulses_def machine_counter_def)

lemma emitPulse_appends:
  assumes "pulses_ok (pulseStore k) (pulseSequence k)"
    and "sorted_wrt (<) (pulse_numbers (pulseStore k))"
  shows "pulseStore (snd (emitPulse e ty payload ts k)) =
           pulseStore k @ [(e_pulseId (fst (emitPulse e ty payload ts k)),
                            e_pulse (fst (emitPulse e ty payload ts k)))]"
    and "pulses_ok (pulseStore (snd (emitPulse e ty payload ts k))) (Suc (pulseSequence k))"
    and "sorted_wrt (<) (pulse_numbers (pulseStore (snd (emitPulse e ty payload ts k))))"
    and "pulse_numbers (pulseStore (snd (emitPulse e ty payload ts k))) =
           pulse_numbers (pulseStore k) @ [Suc (pulseSequence k)]"
  using append_pulse [OF assms emitPulse_pulse(2) [of e ty payload ts k]]
  by (simp_all add: emitPulse_state emitPulse_pulse(6))

lemma emitPulse_inv:
  assumes "pulse_inv (On k)"
  shows "pulse_inv (On (snd (emitPulse e ty payload ts k)))"
proof -
  from assms have a: "pulses_ok (pulseStore k) (pulseSequence k)"
    "sorted_wrt (<) (pulse_numbers (pulseStore k))"
    by (simp_all add: pulse_inv_On)
  from emitPulse_appends(2,3) [OF a, of e ty payload ts] show ?thesis
    by (simp add: pulse_inv_On loadState_def)
qed

lemma emitPulse_gapless:
  assumes "pulse_inv (On k)" "gapless (On k)"
  shows "gapless (On (snd (emitPulse e ty payload ts k)))"
proof -
  from assms have a: "pulses_ok (pulseStore k) (pulseSequence k)"
    "sorted_wrt (<) (pulse_numbers (pulseStore k))"
    by (simp_all add: pulse_inv_On)
  from emitPulse_appends(4) [OF a, of e ty payload ts] assms(2) show ?thesis
    by (simp add: gapless_On)
qed

lemma getNextSequence_inv:
  "pulse_inv (On k) \<Longrightarrow> pulse_inv (On (snd (getNextSequence k)))"
  by (auto simp: pulse_inv_On getNextSequence_def Let_def loadState_def
           intro: pulses_ok_mono)

lemma storeGenerated_inv:
  "pulse_inv (On k) \<Longrightarrow> pulse_inv (On (snd (storeGenerated e content sch h address ts tsPulse k)))"
  apply (simp add: storeGenerated_def Let_def split_beta)
  apply (intro conjI impI emitPulse_inv)
  apply (simp_all add: pulse_inv_On)
  done

lemma storeGenerated_gapless:
  "pulse_inv (On k) \<Longrightarrow> gapless (On k) \<Longrightarrow>
     gapless (On (snd (storeGenerated e content sch h address ts tsPulse k)))"
  apply (simp add: storeGenerated_def Let_def split_beta)
  apply (intro conjI impI emitPulse_gapless)
   apply (simp_all add: pulse_inv_On gapless_On)
  done

lemma generateAddress_inv:
  "pulse_inv (On k) \<Longrightarrow> pulse_inv (On (snd (generateAddress e content sch sq ts tsPulse k)))"
  by (auto simp: generateAddress_def Let_def split_beta
           intro!: storeGenerated_inv getNextSequence_inv split: option.splits)

lemma generateAddress_gapless:
  "pulse_inv (On k) \<Longrightarrow> gapless (On k) \<Longrightarrow>
   \<not> (content \<noteq> [] \<and> sch = ''pulse'' \<and> (sq = None \<or> sq = Some [])) \<Longrightarrow>
     gapless (On (snd (generateAddress e content sch sq ts tsPulse k)))"
  by (auto simp: generateAddress_def Let_def split_beta
           intro!: storeGenerated_gapless split: option.splits)

lemma resolveAddress_inv:
  "pulse_inv (On k) \<Longrightarrow> pulse_inv (On (snd (resolveAddress e address tsPulse k)))"
  by (auto simp: resolveAddress_def Let_def split_beta intro!: emitPulse_inv split: option.splits)

lemma resolveAddress_gapless:
  "pulse_inv (On k) \<Longrightarrow> gapless (On k) \<Longrightarrow>
     gapless (On (snd (resolveAddress e address tsPulse k)))"
  by (auto simp: resolveAddress_def Let_def split_beta intro!: emitPulse_gapless
           split: option.splits)

lemma mintSlips_inv:
  "pulse_inv (On k) \<Longrightarrow> pulse_inv (On (snd (mintSlips e amount why txId ts tsPulse k)))"
  apply (simp add: mintSlips_def Let_def split_beta save_ledger_def)
  apply (intro conjI impI emitPulse_inv)
  apply (simp_all add: pulse_inv_On)
  done

lemma mintSlips_gapless:
  "pulse_inv (On k) \<Longrightarrow> gapless (On k) \<Longrightarrow>
     gapless (On (snd (mintSlips e amount why txId ts tsPulse k)))"
  apply (simp add: mintSlips_def Let_def split_beta save_ledger_def)
  apply (intro conjI impI emitPulse_gapless)
   apply (simp_all add: pulse_inv_On gapless_On)
  done

lemma transferSlips_inv:
  "pulse_inv (On k) \<Longrightarrow> pulse_inv (On (snd (transferSlips e toDid amount memo txId ts tsPulse k)))"
  apply (simp add: transferSlips_def Let_def split_beta save_ledger_def)
  apply (intro conjI impI emitPulse_inv)
  apply (simp_all add: pulse_inv_On)
  done

lemma transferSlips_gapless:
  "pulse_inv (On k) \<Longrightarrow> gapless (On k) \<Longrightarrow>
     gapless (On (snd (transferSlips e toDid amount memo txId ts tsPulse k)))"
  apply (simp add: transferSlips_def Let_def split_beta save_ledger_def)
  apply (intro conjI impI emitPulse_gapless)
   apply (simp_all add: pulse_inv_On gapless_On)
  done

lemma createPost_inv:
  "pulse_inv (On k) \<Longrightarrow>
     pulse_inv (On (snd (createPost e content replyTo repostOf chan postId ts tsPulse k)))"
  apply (simp add: createPost_def Let_def split_beta)
  apply (intro impI conjI emitPulse_inv)
  apply (simp_all add: pulse_inv_On Let_def split: option.splits)
  done

lemma createPost_gapless:
  "pulse_inv (On k) \<Longrightarrow> gapless (On k) \<Longrightarrow>
     gapless (On (snd (createPost e content replyTo repostOf chan postId ts tsPulse k)))"
  apply (simp add: createPost_def Let_def split_beta)
  apply (intro impI conjI emitPulse_gapless)
   apply (simp_all add: pulse_inv_On gapless_On Let_def split: option.splits)
  done

lemma createChannel_inv:
  "pulse_inv (On k) \<Longrightarrow>
     pulse_inv (On (snd (createChannel e name description channelId ts tsPulse k)))"
  apply (simp add: createChannel_def Let_def split_beta)
  apply (intro conjI impI emitPulse_inv)
  apply (simp_all add: pulse_inv_On)
  done

lemma createChannel_gapless:
  "pulse_inv (On k) \<Longrightarrow> gapless (On k) \<Longrightarrow>
     gapless (On (snd (createChannel e name description channelId ts tsPulse k)))"
  apply (simp add: createChannel_def Let_def split_beta)
  apply (intro conjI impI emitPulse_gapless)
   apply (simp_all add: pulse_inv_On gapless_On)
  done

lemma follow_inv:
  "pulse_inv (On k) \<Longrightarrow> pulse_inv (On (snd (follow e d tsPulse k)))"
  apply (simp add: follow_def Let_def split_beta)
  apply (intro conjI impI emitPulse_inv)
  apply (simp_all add: pulse_inv_On)
  done

lemma follow_gapless:
  "pulse_inv (On k) \<Longrightarrow> gapless (On k) \<Longrightarrow> gapless (On (snd (follow e d tsPulse k)))"
  apply (simp add: follow_def Let_def split_beta)
  apply (intro conjI impI emitPulse_gapless)
   apply (simp_all add: pulse_inv_On gapless_On)
  done

lemma unfollow_inv:
  "pulse_inv (On k) \<Longrightarrow> pulse_inv (On (snd (unfollow e d tsPulse k)))"
  apply (simp add: unfollow_def Let_def split_beta)
  apply (intro conjI impI emitPulse_inv)
  apply (simp_all add: pulse_inv_On)
  done

lemma unfollow_gapless:
  "pulse_inv (On k) \<Longrightarrow> gapless (On k) \<Longrightarrow> gapless (On (snd (unfollow e d tsPulse k)))"
  apply (simp add: unfollow_def Let_def split_beta)
  apply (intro conjI impI emitPulse_gapless)
   apply (simp_all add: pulse_inv_On gapless_On)
  done

lemma clearAddressIndex_inv:
  "pulse_inv (On k) \<Longrightarrow> pulse_inv (On (clearAddressIndex k))"
  "gapless (On k) \<Longrightarrow> gapless (On (clearAddressIndex k))"
  by (simp_all add: clearAddressIndex_def pulse_inv_On gapless_On)

lemma regenerateIdentity_inv:
  "pulse_inv (On k) \<Longrightarrow> pulse_inv (On (snd (regenerateIdentity e archivedTime r tsPulse k)))"
  apply (simp add: regenerateIdentity_def Let_def split_beta createIdentity_def as_this_def
                   merge_this_def loadState_def)
  apply (intro impI conjI emitPulse_inv)
  apply (simp_all add: pulse_inv_On loadState_def)
  done

lemma regenerateIdentity_gapless:
  "pulse_inv (On k) \<Longrightarrow> gapless (On k) \<Longrightarrow>
     gapless (On (snd (regenerateIdentity e archivedTime r tsPulse k)))"
  apply (simp add: regenerateIdentity_def Let_def split_beta createIdentity_def as_this_def
                   merge_this_def loadState_def)
  apply (intro impI conjI emitPulse_gapless)
  apply (simp_all add: pulse_inv_On gapless_On loadState_def)
  done

lemma resetKernel_pulses:
  "pulseStore (snd (resetKernel e preserveIdentity tsPayload tsPulse r k)) = []"
  "pulseSequence (snd (resetKernel e preserveIdentity tsPayload tsPulse r k)) = 0"
  "s_pulses (localStorage (snd (resetKernel e preserveIdentity tsPayload tsPulse r k))) = None"
  "s_seq (localStorage (snd (resetKernel e preserveIdentity tsPayload tsPulse r k))) = None"
  by (auto simp: resetKernel_def Let_def split_beta createIdentity_def as_this_def
                 merge_this_def loadState_def empty_store_def)

lemma resetKernel_inv:
  "pulse_inv (On (snd (resetKernel e preserveIdentity tsPayload tsPulse r k)))"
  "gapless (On (snd (resetKernel e preserveIdentity tsPayload tsPulse r k)))"
  by (simp_all add: pulse_inv_On gapless_On resetKernel_pulses loadState_def pulses_ok_def
                    pulse_numbers_def)

lemma emitPulseSync_appends:
  assumes "pulses_ok ps c" "sorted_wrt (<) (pulse_numbers ps)"
    and "v_pulseStore t = Some ps" "v_pulseSequence t = c"
  shows "\<exists>ps'. v_pulseStore (emitPulseSync e ty payload ts t) = Some ps'
           \<and> s_pulses (v_storage (emitPulseSync e ty payload ts t)) = Some ps'
           \<and> pulses_ok ps' (Suc c) \<and> sorted_wrt (<) (pulse_numbers ps')
           \<and> pulse_numbers ps' = pulse_numbers ps @ [Suc c]"
    and "v_pulseSequence (emitPulseSync e ty payload ts t) = Suc c"
    and "s_seq (v_storage (emitPulseSync e ty payload ts t)) = Some (Suc c)"
proof -
  obtain p where p: "p = stored_pulse ty payload ts
      (case v_identity t of None \<Rightarrow> ''kernel'' | Some i \<Rightarrow> if did i = [] then ''kernel'' else did i)
      (seq_string (Suc c))
      (case v_kernelMeta t of None \<Rightarrow> ''1.0.0'' | Some m \<Rightarrow> if m_version m = [] then ''1.0.0'' else m_version m)
      (take 32 (btoa e (stringify e (pulse_json ty payload ts
         (case v_identity t of None \<Rightarrow> ''kernel'' | Some i \<Rightarrow> if did i = [] then ''kernel'' else did i)
         (seq_string (Suc c))
         (case v_kernelMeta t of None \<Rightarrow> ''1.0.0'' | Some m \<Rightarrow> if m_version m = [] then ''1.0.0'' else m_version m)))))"
    by simp
  have sq: "p_sequence p = seq_string (Suc c)" by (simp add: p stored_pulse_def)
  have st: "v_pulseStore (emitPulseSync e ty payload ts t)
              = Some (AList.update (seq_string (Suc c) @ ''/'' @ p_hash p) p ps)"
    "s_pulses (v_storage (emitPulseSync e ty payload ts t))
              = Some (AList.update (seq_string (Suc c) @ ''/'' @ p_hash p) p ps)"
    using assms(3,4) by (simp_all add: emitPulseSync_def Let_def p stored_pulse_def)
  from append_pulse [OF assms(1,2) sq] st
  show "\<exists>ps'. v_pulseStore (emitPulseSync e ty payload ts t) = Some ps'
           \<and> s_pulses (v_storage (emitPulseSync e ty payload ts t)) = Some ps'
           \<and> pulses_ok ps' (Suc c) \<and> sorted_wrt (<) (pulse_numbers ps')
           \<and> pulse_numbers ps' = pulse_numbers ps @ [Suc c]"
    by simp
  show "v_pulseSequence (emitPulseSync e ty payload ts t) = Suc c"
    using assms(4) by (simp add: emitPulseSync_def Let_def)
  show "s_seq (v_storage (emitPulseSync e ty payload ts t)) = Some (Suc c)"
    using assms(4) by (simp add: emitPulseSync_def Let_def)
qed

text \<open>The constructor, by cases on what the storage holds.\<close>

lemma initializeKernel_no_identity:
  assumes "s_identity st = None \<or> (\<exists>i. s_identity st = Some i \<and> did i = [])"
  shows "\<exists>st'. initializeKernel e b st = Inl (TypeError, st')
           \<and> s_seq st' = s_seq st \<and> s_pulses st' = s_pulses st \<and> s_ledger st' = s_ledger st"
  using assms
  by (auto simp: initializeKernel_def loadOrCreateIdentity_def createIdentity_def Let_def)

lemma initializeKernel_reopen:
  assumes "s_identity st = Some i" "did i \<noteq> []" "s_meta st = Some m"
  shows "\<exists>k. initializeKernel e b st = Inr k
           \<and> pulseSequence k = loadState (s_seq st) 0
           \<and> pulseStore k = loadState (s_pulses st) []
           \<and> s_seq (localStorage k) = s_seq st
           \<and> s_pulses (localStorage k) = s_pulses st"
  using assms
  by (auto simp: initializeKernel_def loadOrCreateIdentity_def Let_def)

lemma initializeKernel_new:
  assumes "s_identity st = Some i" "did i \<noteq> []" "s_meta st = None"
  obtains k t where "initializeKernel e b st = Inr k"
    and "v_pulseSequence t = loadState (s_seq st) 0"
    and "v_pulseStore t = Some (loadState (s_pulses st) [])"
    and "pulseSequence k = v_pulseSequence (emitPulseSync e KERNEL_INIT
           (JObj [(''version'', JStr ''1.0.0''), (''identity'', JStr (did i))]) (b_initTime b) t)"
    and "pulseStore k = (case v_pulseStore (emitPulseSync e KERNEL_INIT
           (JObj [(''version'', JStr ''1.0.0''), (''identity'', JStr (did i))]) (b_initTime b) t)
           of None \<Rightarrow> [] | Some ps \<Rightarrow> ps)"
    and "localStorage k = v_storage (emitPulseSync e KERNEL_INIT
           (JObj [(''version'', JStr ''1.0.0''), (''identity'', JStr (did i))]) (b_initTime b) t)"
proof -
  let ?meta = "\<lparr>m_version = ''1.0.0'', m_created = b_created b, m_lastActive = b_lastActive b\<rparr>"
  let ?l0 = "loadState (s_ledger st) empty_ledger"
  let ?l1 = "if no_balance ?l0 (did i)
             then ?l0\<lparr>balances := AList.update (did i) 100 (balances ?l0)\<rparr> else ?l0"
  let ?t = "\<lparr>v_storage = (if no_balance ?l0 (did i)
                             then st\<lparr>s_meta := Some ?meta, s_ledger := Some ?l1\<rparr>
                             else st\<lparr>s_meta := Some ?meta\<rparr>),
             v_pulseSequence = loadState (s_seq st) 0,
             v_kernelMeta = Some ?meta, v_identity = Some i,
             v_pulseStore = Some (loadState (s_pulses st) []),
             v_slipLedger = Some ?l1\<rparr>"
  let ?em = "emitPulseSync e KERNEL_INIT
           (JObj [(''version'', JStr ''1.0.0''), (''identity'', JStr (did i))]) (b_initTime b) ?t"
  have "\<exists>k. initializeKernel e b st = Inr k
          \<and> pulseSequence k = v_pulseSequence ?em
          \<and> pulseStore k = (case v_pulseStore ?em of None \<Rightarrow> [] | Some ps \<Rightarrow> ps)
          \<and> localStorage k = v_storage ?em"
    using assms
    by (auto simp: initializeKernel_def loadOrCreateIdentity_def Let_def)
  then obtain k where "initializeKernel e b st = Inr k"
    "pulseSequence k = v_pulseSequence ?em"
    "pulseStore k = (case v_pulseStore ?em of None \<Rightarrow> [] | Some ps \<Rightarrow> ps)"
    "localStorage k = v_storage ?em"
    by blast
  with that [of k ?t] show ?thesis
    by simp
qed

lemma boot_pulses:
  assumes "pulse_inv (Off st)"
  shows "pulse_inv (boot e b st) \<and> (gapless (Off st) \<longrightarrow> gapless (boot e b st))"
proof -
  from assms have ok: "pulses_ok (loadState (s_pulses st) []) (loadState (s_seq st) 0)"
    and srt: "sorted_wrt (<) (pulse_numbers (loadState (s_pulses st) []))"
    by (simp_all add: pulse_inv_Off)
  consider (none) "s_identity st = None \<or> (\<exists>i. s_identity st = Some i \<and> did i = [])"
    | (reopen) i m where "s_identity st = Some i" "did i \<noteq> []" "s_meta st = Some m"
    | (new) i where "s_identity st = Some i" "did i \<noteq> []" "s_meta st = None"
    by (cases "s_identity st"; cases "s_meta st") auto
  then show ?thesis
  proof cases
    case none
    from initializeKernel_no_identity [OF none, of e b] ok srt show ?thesis
      by (auto simp: boot_def pulse_inv_Off gapless_Off)
  next
    case reopen
    from initializeKernel_reopen [OF reopen, of e b] ok srt show ?thesis
      by (auto simp: boot_def pulse_inv_On gapless_On gapless_Off)
  next
    case new
    define payload where
      "payload = JObj [(''version'', JStr ''1.0.0''), (''identity'', JStr (did i))]"
    from initializeKernel_new [OF new, of e b] obtain k t where
      k: "initializeKernel e b st = Inr k"
      and t: "v_pulseSequence t = loadState (s_seq st) 0"
             "v_pulseStore t = Some (loadState (s_pulses st) [])"
      and r: "pulseSequence k = v_pulseSequence (emitPulseSync e KERNEL_INIT payload (b_initTime b) t)"
             "pulseStore k = (case v_pulseStore (emitPulseSync e KERNEL_INIT payload (b_initTime b) t)
                 of None \<Rightarrow> [] | Some ps \<Rightarrow> ps)"
             "localStorage k = v_storage (emitPulseSync e KERNEL_INIT payload (b_initTime b) t)"
      unfolding payload_def by blast
    from emitPulseSync_appends [OF ok srt t(2,1), of e KERNEL_INIT payload "b_initTime b"]
    obtain ps' where
      p: "v_pulseStore (emitPulseSync e KERNEL_INIT payload (b_initTime b) t) = Some ps'"
         "s_pulses (v_storage (emitPulseSync e KERNEL_INIT payload (b_initTime b) t)) = Some ps'"
         "pulses_ok ps' (Suc (loadState (s_seq st) 0))"
         "sorted_wrt (<) (pulse_numbers ps')"
         "pulse_numbers ps' = pulse_numbers (loadState (s_pulses st) []) @ [Suc (loadState (s_seq st) 0)]"
      and c: "v_pulseSequence (emitPulseSync e KERNEL_INIT payload (b_initTime b) t)
                = Suc (loadState (s_seq st) 0)"
             "s_seq (v_storage (emitPulseSync e KERNEL_INIT payload (b_initTime b) t))
                = Some (Suc (loadState (s_seq st) 0))"
      by blast
    from k r p c show ?thesis
      by (simp add: boot_def pulse_inv_On gapless_On gapless_Off)
  qed
qed

lemma step_pulses:
  assumes "\<not> is_import opn" "pulse_inv m"
  shows "pulse_inv (step e opn m)"
proof (cases m)
  case (Off st)
  with assms boot_pulses [of st e] show ?thesis
    by (cases opn) simp_all
next
  case (On k)
  then have st: "pulse_inv (Off (localStorage k))"
    using assms(2) by (simp add: pulse_inv_On pulse_inv_Off)
  from On assms st boot_pulses [OF st, of e] show ?thesis
    by (cases opn)
       (simp_all add: generateAddress_inv resolveAddress_inv regenerateIdentity_inv
          clearAddressIndex_inv mintSlips_inv transferSlips_inv createPost_inv
          createChannel_inv follow_inv unfollow_inv resetKernel_inv)
qed

lemma step_gapless:
  assumes "\<not> is_import opn" "\<not> allocates_for_address opn" "pulse_inv m" "gapless m"
  shows "gapless (step e opn m)"
proof (cases m)
  case (Off st)
  with assms boot_pulses [of st e] show ?thesis
    by (cases opn) simp_all
next
  case (On k)
  then have st: "pulse_inv (Off (localStorage k))" "gapless (Off (localStorage k))"
    using assms(3,4) by (simp_all add: pulse_inv_On pulse_inv_Off gapless_On gapless_Off)
  from On assms st boot_pulses [OF st(1), of e] show ?thesis
    by (cases opn)
       (simp_all add: generateAddress_gapless resolveAddress_gapless regenerateIdentity_gapless
          clearAddressIndex_inv mintSlips_gapless transferSlips_gapless createPost_gapless
          createChannel_gapless follow_gapless unfollow_gapless resetKernel_inv)
qed

lemma run_pulses:
  assumes "list_all (\<lambda>opn. \<not> is_import opn) ops" "pulse_inv m"
  shows "pulse_inv (run e ops m)"
  using assms
  by (induction ops arbitrary: m) (simp_all add: step_pulses)

lemma run_gapless:
  assumes "list_all (\<lambda>opn. \<not> is_import opn) ops"
    and "list_all (\<lambda>opn. \<not> allocates_for_address opn) ops"
    and "pulse_inv m" "gapless m"
  shows "gapless (run e ops m)"
  using assms
  by (induction ops arbitrary: m) (simp_all add: step_pulses step_gapless)

lemma pulse_inv_start: "pulse_inv (Off empty_store)" "gapless (Off empty_store)"
  by (simp_all add: pulse_inv_Off gapless_Off empty_store_def pulses_ok_def pulse_numbers_def)

text \<open>
  C2, as the kernel keeps it. In every state that a run of kernel operations without an
  import reaches from the empty storage, the sequence numbers on the stored pulses are
  positive, at most the counter, and strictly increasing along the store (each emitted
  pulse carries a number above every stored one); the counter and the pulses in storage
  are those in memory, so loading the page again continues from them; and as long as no
  \<open>generateAddress\<close> call of the pulse scheme has taken a number for its address, the
  stored pulses carry exactly the numbers \<open>1, ..., counter\<close>. A reset sets counter and
  pulse store back to empty together.
\<close>

theorem pulse_sequence_run:
  assumes "list_all (\<lambda>opn. \<not> is_import opn) ops"
  shows "sorted_wrt (<) (pulse_numbers (machine_pulses (run e ops (Off empty_store))))
       \<and> pulses_ok (machine_pulses (run e ops (Off empty_store)))
                   (machine_counter (run e ops (Off empty_store)))
       \<and> pulses_persisted (run e ops (Off empty_store))
       \<and> (list_all (\<lambda>opn. \<not> allocates_for_address opn) ops \<longrightarrow>
            pulse_numbers (machine_pulses (run e ops (Off empty_store)))
              = [1 ..< Suc (machine_counter (run e ops (Off empty_store)))])"
  using run_pulses [OF assms pulse_inv_start(1), of e]
    run_gapless [OF assms _ pulse_inv_start, of e]
  by (simp add: pulse_inv_def gapless_def)

theorem pulse_sequence_run_witness:
  "list_all (\<lambda>opn. \<not> is_import opn)
     [Boot demo_boot, Boot demo_boot, Mint 50 ''r'' ''x1'' ''t3'' ''t4'',
      Resolve ''xhe://ab'' ''t5'', Follow ''did:xhe:zz'' ''t6'', Boot demo_boot]
   \<and> list_all (\<lambda>opn. \<not> allocates_for_address opn)
     [Boot demo_boot, Boot demo_boot, Mint 50 ''r'' ''x1'' ''t3'' ''t4'',
      Resolve ''xhe://ab'' ''t5'', Follow ''did:xhe:zz'' ''t6'', Boot demo_boot]
   \<and> pulses_persisted (run demo_env
     [Boot demo_boot, Boot demo_boot, Mint 50 ''r'' ''x1'' ''t3'' ''t4'',
      Resolve ''xhe://ab'' ''t5'', Follow ''did:xhe:zz'' ''t6'', Boot demo_boot] (Off empty_store))
   \<and> pulse_numbers (machine_pulses (run demo_env
     [Boot demo_boot, Boot demo_boot, Mint 50 ''r'' ''x1'' ''t3'' ''t4'',
      Resolve ''xhe://ab'' ''t5'', Follow ''did:xhe:zz'' ''t6'', Boot demo_boot] (Off empty_store)))
     = [1, 2, 3]"
proof -
  let ?ops = "[Boot demo_boot, Boot demo_boot, Mint 50 ''r'' ''x1'' ''t3'' ''t4'',
      Resolve ''xhe://ab'' ''t5'', Follow ''did:xhe:zz'' ''t6'', Boot demo_boot]"
  have h: "list_all (\<lambda>opn. \<not> is_import opn) ?ops" by simp
  have a: "list_all (\<lambda>opn. \<not> allocates_for_address opn) ?ops" by simp
  have c: "machine_counter (run demo_env ?ops (Off empty_store)) = 3" by code_simp
  have u: "[1 ..< Suc 3] = [1, 2, 3::nat]" by code_simp
  from pulse_sequence_run [OF h, of demo_env] a
  have p: "pulses_persisted (run demo_env ?ops (Off empty_store))"
    and n: "pulse_numbers (machine_pulses (run demo_env ?ops (Off empty_store)))
              = [1 ..< Suc (machine_counter (run demo_env ?ops (Off empty_store)))]"
    by blast+
  from n have "pulse_numbers (machine_pulses (run demo_env ?ops (Off empty_store))) = [1, 2, 3]"
    by (simp only: c u)
  with h a p show ?thesis by blast
qed

text \<open>
  C2 as stated fails where \<open>generateAddress\<close> is called for the pulse scheme without a
  sequence of the caller's: the call takes number 1 for the address and the
  \<open>ADDRESS_GENERATE\<close> pulse gets number 2, so the only stored pulse carries 2 while the
  counter stands at 2: the numbers neither start at 1 nor cover what was allocated.
\<close>

theorem pulse_sequence_counterexample:
  "pulse_numbers (machine_pulses (run demo_env
     [Boot demo_boot, Boot demo_boot, Generate ''a'' ''pulse'' None ''t3'' ''t4'']
     (Off empty_store))) = [2]
   \<and> machine_counter (run demo_env
     [Boot demo_boot, Boot demo_boot, Generate ''a'' ''pulse'' None ''t3'' ''t4'']
     (Off empty_store)) = 2"
  by code_simp

text \<open>
  An import can merge pulses of another log under any number, which is why the runs above
  are runs without an import: here a pulse numbered 5 enters a store whose counter is 0.
\<close>

lemma import_merges_foreign_numbers:
  "pulse_numbers (machine_pulses (run demo_env
     [Boot demo_boot, Boot demo_boot,
      Import ''err'' (Some \<lparr>d_version = Some 2, d_entries = None, d_contentStore = None,
         d_addressIndex = None,
         d_pulseStore = Some [(''00000005/ab'',
           stored_pulse FOLLOW JNull ''t0'' ''did:xhe:zz'' ''00000005'' ''1.0.0'' ''ab'')]\<rparr>)]
     (Off empty_store))) = [5]
   \<and> machine_counter (run demo_env
     [Boot demo_boot, Boot demo_boot,
      Import ''err'' (Some \<lparr>d_version = Some 2, d_entries = None, d_contentStore = None,
         d_addressIndex = None,
         d_pulseStore = Some [(''00000005/ab'',
           stored_pulse FOLLOW JNull ''t0'' ''did:xhe:zz'' ''00000005'' ''1.0.0'' ''ab'')]\<rparr>)]
     (Off empty_store)) = 0"
  by code_simp

text \<open>
  In every kernel that a run without an import constructs from the empty storage, the
  stored pulses carry numbers up to the counter.
\<close>

lemma reachable_pulses_ok:
  assumes "list_all (\<lambda>opn. \<not> is_import opn) ops" "run e ops (Off empty_store) = On k"
  shows "pulses_ok (pulseStore k) (pulseSequence k)"
  using run_pulses [OF assms(1) pulse_inv_start(1), of e] assms(2)
  by (simp add: pulse_inv_On)

subsection \<open>Resolution\<close>

lemma resolver_states:
  "r_state (resolveContentAddress k a p) = RESOLVED \<or> r_state (resolveContentAddress k a p) = KNOWN_BUT_UNAVAILABLE \<or> r_state (resolveContentAddress k a p) = UNKNOWN"
  "r_state (resolveIdentityAddress e k a p) = RESOLVED \<or> r_state (resolveIdentityAddress e k a p) = KNOWN_BUT_UNAVAILABLE \<or> r_state (resolveIdentityAddress e k a p) = UNKNOWN"
  "r_state (resolvePulseAddress e k a p) = RESOLVED \<or> r_state (resolvePulseAddress e k a p) = KNOWN_BUT_UNAVAILABLE \<or> r_state (resolvePulseAddress e k a p) = UNKNOWN"
  "r_state (resolveSlipAddress e k a p) = RESOLVED \<or> r_state (resolveSlipAddress e k a p) = KNOWN_BUT_UNAVAILABLE \<or> r_state (resolveSlipAddress e k a p) = UNKNOWN"
  "r_state (resolveFeedAddress e k a p) = RESOLVED \<or> r_state (resolveFeedAddress e k a p) = KNOWN_BUT_UNAVAILABLE \<or> r_state (resolveFeedAddress e k a p) = UNKNOWN"
  "r_state (resolveChannelAddress e k a p) = RESOLVED \<or> r_state (resolveChannelAddress e k a p) = KNOWN_BUT_UNAVAILABLE \<or> r_state (resolveChannelAddress e k a p) = UNKNOWN"
  by (auto simp: resolveContentAddress_def resolveIdentityAddress_def resolvePulseAddress_def
        resolveSlipAddress_def resolveFeedAddress_def resolveChannelAddress_def
        split: option.splits)

text \<open>
  C4. \<open>resolveAddress\<close> has no raising branch: for every address string it returns a
  result. If the string does not parse, the result has state \<open>INVALID\<close> and the kernel is
  unchanged (no pulse). If it parses, one \<open>ADDRESS_RESOLVE\<close> pulse is emitted (the
  counter goes up by one, and the pulse store gets the one pulse, numbered by the new
  counter), the state is \<open>RESOLVED\<close>, \<open>KNOWN_BUT_UNAVAILABLE\<close> or \<open>UNKNOWN\<close>, and the
  content store, the ledger and the social graph are the same, in memory and in storage.
\<close>

theorem resolveAddress_failure_safe:
  "(case parseAddress address of
      None \<Rightarrow>
        r_state (fst (resolveAddress e address ts k)) = INVALID
        \<and> snd (resolveAddress e address ts k) = k
    | Some p \<Rightarrow>
        (r_state (fst (resolveAddress e address ts k)) = RESOLVED
         \<or> r_state (fst (resolveAddress e address ts k)) = KNOWN_BUT_UNAVAILABLE
         \<or> r_state (fst (resolveAddress e address ts k)) = UNKNOWN)
        \<and> snd (resolveAddress e address ts k)
            = snd (emitPulse e ADDRESS_RESOLVE
                     (JObj [(''address'', JStr (take 40 address)),
                            (''scheme'', JStr (scheme_name (scheme p)))]) ts k)
        \<and> pulseSequence (snd (resolveAddress e address ts k)) = Suc (pulseSequence k)
        \<and> (\<exists>key pl. p_type pl = ADDRESS_RESOLVE
              \<and> p_sequence pl = seq_string (Suc (pulseSequence k))
              \<and> pulseStore (snd (resolveAddress e address ts k))
                  = AList.update key pl (pulseStore k))
        \<and> contentStore (snd (resolveAddress e address ts k)) = contentStore k
        \<and> slipLedger (snd (resolveAddress e address ts k)) = slipLedger k
        \<and> socialGraph (snd (resolveAddress e address ts k)) = socialGraph k
        \<and> s_content (localStorage (snd (resolveAddress e address ts k))) = s_content (localStorage k)
        \<and> s_ledger (localStorage (snd (resolveAddress e address ts k))) = s_ledger (localStorage k)
        \<and> s_social (localStorage (snd (resolveAddress e address ts k))) = s_social (localStorage k))"
proof (cases "parseAddress address")
  case None
  then show ?thesis by (simp add: resolveAddress_def)
next
  case (Some p)
  let ?em = "emitPulse e ADDRESS_RESOLVE
               (JObj [(''address'', JStr (take 40 address)),
                      (''scheme'', JStr (scheme_name (scheme p)))]) ts k"
  have s: "snd (resolveAddress e address ts k) = snd ?em"
    using Some by (simp add: resolveAddress_def split_beta)
  have st: "r_state (fst (resolveAddress e address ts k)) = RESOLVED
         \<or> r_state (fst (resolveAddress e address ts k)) = KNOWN_BUT_UNAVAILABLE
         \<or> r_state (fst (resolveAddress e address ts k)) = UNKNOWN"
    using Some
    by (cases "scheme p") (simp_all add: resolveAddress_def split_beta resolver_states)
  have ex: "\<exists>key pl. p_type pl = ADDRESS_RESOLVE
              \<and> p_sequence pl = seq_string (Suc (pulseSequence k))
              \<and> pulseStore (snd ?em) = AList.update key pl (pulseStore k)"
    by (rule exI [of _ "e_pulseId (fst ?em)"], rule exI [of _ "e_pulse (fst ?em)"])
       (simp add: emitPulse_pulse emitPulse_state)
  from Some s st ex show ?thesis by simp
qed

theorem resolveAddress_failure_safe_witness:
  "r_state (fst (resolveAddress demo_env ''not-a-valid-address'' ''t3'' demo_kernel)) = INVALID
   \<and> snd (resolveAddress demo_env ''not-a-valid-address'' ''t3'' demo_kernel) = demo_kernel
   \<and> r_state (fst (resolveAddress demo_env ''xhe://deadbeef'' ''t3'' demo_kernel)) = UNKNOWN
   \<and> pulseSequence (snd (resolveAddress demo_env ''xhe://deadbeef'' ''t3'' demo_kernel)) = 1
   \<and> slipLedger (snd (resolveAddress demo_env ''xhe://deadbeef'' ''t3'' demo_kernel)) = demo_ledger"
proof -
  have p1: "parseAddress ''not-a-valid-address'' = None" by code_simp
  have p2: "parseAddress ''xhe://deadbeef'' = Some \<lparr>scheme = XHE, sequence = None, hash = ''deadbeef''\<rparr>"
    by code_simp
  have u: "r_state (fst (resolveAddress demo_env ''xhe://deadbeef'' ''t3'' demo_kernel)) = UNKNOWN"
    by code_simp
  have c: "pulseSequence demo_kernel = 0" "slipLedger demo_kernel = demo_ledger"
    by (simp_all add: demo_kernel_def)
  from resolveAddress_failure_safe [where address = "''not-a-valid-address''" and e = demo_env
        and ts = "''t3''" and k = demo_kernel]
    resolveAddress_failure_safe [where address = "''xhe://deadbeef''" and e = demo_env
        and ts = "''t3''" and k = demo_kernel]
  show ?thesis by (simp add: p1 p2 u c)
qed

subsection \<open>The constructor over the empty storage\<close>

text \<open>
  C5. Over the empty storage the constructor saves the metadata and a new identity and
  then raises: \<open>_createIdentity\<close> reads \<open>this.slipLedger.balances\<close> before
  \<open>_initializeKernel\<close> has assigned \<open>this.slipLedger\<close>. No kernel is constructed, so
  there is no balance of 100 and no \<open>KERNEL_INIT\<close> pulse. The next load finds the
  metadata, takes the kernel for an old one, grants the 100 and emits no
  \<open>KERNEL_INIT\<close> pulse either.
\<close>

theorem fresh_constructor_raises:
  "initializeKernel e b empty_store =
     Inl (TypeError,
          empty_store\<lparr>s_meta := Some \<lparr>m_version = ''1.0.0'', m_created = b_created b,
                                       m_lastActive = b_lastActive b\<rparr>,
                      s_identity := Some \<lparr>did = ''did:xhe:'' @ r_id (b_draw b),
                                          publicKey = r_publicKey (b_draw b),
                                          created = r_created (b_draw b), version = 1\<rparr>\<rparr>)
   \<and> (\<exists>k. initializeKernel e b'
             (empty_store\<lparr>s_meta := Some \<lparr>m_version = ''1.0.0'', m_created = b_created b,
                                          m_lastActive = b_lastActive b\<rparr>,
                         s_identity := Some \<lparr>did = ''did:xhe:'' @ r_id (b_draw b),
                                             publicKey = r_publicKey (b_draw b),
                                             created = r_created (b_draw b), version = 1\<rparr>\<rparr>)
           = Inr k
         \<and> getSlipBalance k None = 100
         \<and> pulseStore k = [] \<and> pulseSequence k = 0)"
  by (simp add: initializeKernel_def loadOrCreateIdentity_def createIdentity_def Let_def
                empty_store_def empty_ledger_def no_balance_def getSlipBalance_def)

text \<open>
  Re-opening is not idempotent for an identity that has spent its balance: the guard
  \<open>!balances[did]\<close> also holds for a balance of 0, so the constructor grants the 100 again.
\<close>

lemma reopen_regrants:
  "\<exists>k. initializeKernel demo_env demo_boot
          ((localStorage demo_kernel)\<lparr>s_ledger := Some \<lparr>balances = [(''did:xhe:a1'', 0), (''did:xhe:zz'', 100)], transactions = []\<rparr>\<rparr>) = Inr k
       \<and> balances (slipLedger k) = [(''did:xhe:a1'', 100), (''did:xhe:zz'', 100)]"
  by (simp add: initializeKernel_def loadOrCreateIdentity_def createIdentity_def Let_def
                empty_store_def empty_ledger_def no_balance_def getSlipBalance_def
                demo_kernel_def demo_identity_def demo_meta_def)

subsection \<open>Address generation\<close>

lemma hex_char_lower: "d < 16 \<Longrightarrow> hex_char d \<in> set ''0123456789abcdef''"
  unfolding hex_char_def by (rule nth_mem) simp

lemma hex2_lower: "set (hex2 b) \<subseteq> set ''0123456789abcdef''" "length (hex2 b) = 2"
proof -
  define H where "H = set ''0123456789abcdef''"
  have "unat b < 256" using unsigned_less [of b, where ?'a = nat] by simp
  then have d: "unat b div 16 < 16" and m: "unat b mod 16 < 16" by auto
  have "hex_char (unat b div 16) \<in> H" "hex_char (unat b mod 16) \<in> H"
    unfolding H_def using hex_char_lower [OF d] hex_char_lower [OF m] by blast+
  then have "set (hex2 b) \<subseteq> H" by (simp add: hex2_def)
  then show "set (hex2 b) \<subseteq> set ''0123456789abcdef''" unfolding H_def .
  show "length (hex2 b) = 2" by (simp add: hex2_def)
qed

lemma sha256_lower_hex:
  "set (sha256 e s) \<subseteq> set ''0123456789abcdef''"
  "length (sha256 e s) = 2 * length (digest e (encode e s))"
proof -
  define H where "H = set ''0123456789abcdef''"
  have "set (hex2 b) \<subseteq> H" for b unfolding H_def by (rule hex2_lower(1))
  then have "set (sha256 e s) \<subseteq> H" by (auto simp: sha256_def)
  then show "set (sha256 e s) \<subseteq> set ''0123456789abcdef''" unfolding H_def .
  have "length (concat (map hex2 bs)) = 2 * length bs" for bs
    by (induction bs) (simp_all add: hex2_lower(2))
  then show "length (sha256 e s) = 2 * length (digest e (encode e s))"
    by (simp add: sha256_def)
qed

lemma emitPulse_count:
  assumes "pulses_ok (pulseStore k) (pulseSequence k)"
  shows "pulseCount (snd (emitPulse e ty payload ts k)) = Suc (pulseCount k)"
    and "pulses_ok (pulseStore (snd (emitPulse e ty payload ts k)))
           (pulseSequence (snd (emitPulse e ty payload ts k)))"
proof -
  let ?p = "e_pulse (fst (emitPulse e ty payload ts k))"
  have key: "e_pulseId (fst (emitPulse e ty payload ts k))
               = seq_string (Suc (pulseSequence k)) @ ''/'' @ p_hash ?p"
    by (rule emitPulse_pulse(6))
  have fresh: "map_of (pulseStore k) (seq_string (Suc (pulseSequence k)) @ ''/'' @ p_hash ?p) = None"
    using assms by (rule pulses_ok_fresh) simp
  show "pulseCount (snd (emitPulse e ty payload ts k)) = Suc (pulseCount k)"
    using fresh by (simp add: pulseCount_def emitPulse_state key length_update)
  have "pulses_ok (pulseStore k) (Suc (pulseSequence k))"
    using assms by (rule pulses_ok_mono) simp
  then show "pulses_ok (pulseStore (snd (emitPulse e ty payload ts k)))
           (pulseSequence (snd (emitPulse e ty payload ts k)))"
    using fresh
    by (simp add: emitPulse_state key update_fresh pulses_ok_def pulse_entry_ok_def
                  emitPulse_pulse(2))
qed

lemma generate_xhe_once:
  assumes "content \<noteq> []"
  shows "fst (generateAddress e content ''xhe'' sq ts tsPulse k)
           = Inr \<lparr>g_address = ''xhe://'' @ sha256 e content, g_hash = sha256 e content,
                  g_timestamp = ts,
                  g_pulseId = e_pulseId (fst (emitPulse e ADDRESS_GENERATE
                     (JObj [(''address'', JStr (''xhe://'' @ sha256 e content)),
                            (''scheme'', JStr ''xhe''),
                            (''hash'', JStr (take 16 (sha256 e content) @ ''...''))]) tsPulse
                     (k\<lparr>contentStore := AList.update (sha256 e content)
                           \<lparr>c_content = content, c_timestamp = ts, c_author = did (identity k),
                            c_scheme = ''xhe'', c_postMeta = None\<rparr> (contentStore k),
                         addressIndex := AList.update (''xhe://'' @ sha256 e content)
                           \<lparr>i_hash = sha256 e content, i_type = ''xhe'', i_timestamp = ts,
                            i_preview = take 50 content @ (if 50 < length content then ''...'' else [])\<rparr>
                           (addressIndex k),
                         localStorage := (localStorage k)
                           \<lparr>s_content := Some (AList.update (sha256 e content)
                               \<lparr>c_content = content, c_timestamp = ts, c_author = did (identity k),
                                c_scheme = ''xhe'', c_postMeta = None\<rparr> (contentStore k)),
                            s_index := Some (AList.update (''xhe://'' @ sha256 e content)
                               \<lparr>i_hash = sha256 e content, i_type = ''xhe'', i_timestamp = ts,
                                i_preview = take 50 content @ (if 50 < length content then ''...'' else [])\<rparr>
                               (addressIndex k))\<rparr>\<rparr>)))\<rparr>"
    and "snd (generateAddress e content ''xhe'' sq ts tsPulse k)
           = snd (emitPulse e ADDRESS_GENERATE
                     (JObj [(''address'', JStr (''xhe://'' @ sha256 e content)),
                            (''scheme'', JStr ''xhe''),
                            (''hash'', JStr (take 16 (sha256 e content) @ ''...''))]) tsPulse
                     (k\<lparr>contentStore := AList.update (sha256 e content)
                           \<lparr>c_content = content, c_timestamp = ts, c_author = did (identity k),
                            c_scheme = ''xhe'', c_postMeta = None\<rparr> (contentStore k),
                         addressIndex := AList.update (''xhe://'' @ sha256 e content)
                           \<lparr>i_hash = sha256 e content, i_type = ''xhe'', i_timestamp = ts,
                            i_preview = take 50 content @ (if 50 < length content then ''...'' else [])\<rparr>
                           (addressIndex k),
                         localStorage := (localStorage k)
                           \<lparr>s_content := Some (AList.update (sha256 e content)
                               \<lparr>c_content = content, c_timestamp = ts, c_author = did (identity k),
                                c_scheme = ''xhe'', c_postMeta = None\<rparr> (contentStore k)),
                            s_index := Some (AList.update (''xhe://'' @ sha256 e content)
                               \<lparr>i_hash = sha256 e content, i_type = ''xhe'', i_timestamp = ts,
                                i_preview = take 50 content @ (if 50 < length content then ''...'' else [])\<rparr>
                               (addressIndex k))\<rparr>\<rparr>))"
  using assms
  by (simp_all add: generateAddress_def storeGenerated_def Let_def split_beta)


lemma generate_xhe_effect:
  assumes "content \<noteq> []"
  shows "\<exists>g. fst (generateAddress e content ''xhe'' sq ts tsPulse k) = Inr g
           \<and> g_address g = ''xhe://'' @ sha256 e content \<and> g_hash g = sha256 e content"
    and "contentStore (snd (generateAddress e content ''xhe'' sq ts tsPulse k))
           = AList.update (sha256 e content)
               \<lparr>c_content = content, c_timestamp = ts, c_author = did (identity k),
                c_scheme = ''xhe'', c_postMeta = None\<rparr> (contentStore k)"
    and "s_content (localStorage (snd (generateAddress e content ''xhe'' sq ts tsPulse k)))
           = Some (contentStore (snd (generateAddress e content ''xhe'' sq ts tsPulse k)))"
    and "identity (snd (generateAddress e content ''xhe'' sq ts tsPulse k)) = identity k"
    and "pulses_ok (pulseStore k) (pulseSequence k) \<Longrightarrow>
           pulseCount (snd (generateAddress e content ''xhe'' sq ts tsPulse k)) = Suc (pulseCount k)
           \<and> pulses_ok (pulseStore (snd (generateAddress e content ''xhe'' sq ts tsPulse k)))
                 (pulseSequence (snd (generateAddress e content ''xhe'' sq ts tsPulse k)))"
proof -
  note once = generate_xhe_once [OF assms, where e = e and sq = sq and ts = ts and tsPulse = tsPulse and k = k]
  show "\<exists>g. fst (generateAddress e content ''xhe'' sq ts tsPulse k) = Inr g
           \<and> g_address g = ''xhe://'' @ sha256 e content \<and> g_hash g = sha256 e content"
    by (simp add: once(1))
  show "contentStore (snd (generateAddress e content ''xhe'' sq ts tsPulse k))
           = AList.update (sha256 e content)
               \<lparr>c_content = content, c_timestamp = ts, c_author = did (identity k),
                c_scheme = ''xhe'', c_postMeta = None\<rparr> (contentStore k)"
    by (simp add: once(2))
  show "s_content (localStorage (snd (generateAddress e content ''xhe'' sq ts tsPulse k)))
           = Some (contentStore (snd (generateAddress e content ''xhe'' sq ts tsPulse k)))"
    by (simp add: once(2))
  show "identity (snd (generateAddress e content ''xhe'' sq ts tsPulse k)) = identity k"
    by (simp add: once(2))
  show "pulseCount (snd (generateAddress e content ''xhe'' sq ts tsPulse k)) = Suc (pulseCount k)
           \<and> pulses_ok (pulseStore (snd (generateAddress e content ''xhe'' sq ts tsPulse k)))
                 (pulseSequence (snd (generateAddress e content ''xhe'' sq ts tsPulse k)))"
    if "pulses_ok (pulseStore k) (pulseSequence k)"
    unfolding once(2)
    by (rule conjI; (subst emitPulse_count(1) | rule emitPulse_count(2)))
       (use that in \<open>simp_all add: pulseCount_def\<close>)
qed

text \<open>
  C6, as the kernel keeps it. For non-empty content, \<open>generateAddress(content, 'xhe')\<close>
  returns the hash of the content, in lowercase hex digits, two per byte of the digest of
  its encoding, and the address \<open>xhe://\<close> followed by that hash. A second call with the
  same content returns the same address and hash. In a kernel whose stored pulses carry
  numbers up to the counter (every kernel a run without an import constructs from the
  empty storage is one, \<open>reachable_pulses_ok\<close>), the two calls add two pulses. Each call writes the content
  store at the hash and saves it; the second write keeps the keys of the store and the
  entry's content, author and scheme, and replaces the entry's timestamp by the second
  call's.
\<close>

theorem generateAddress_twice:
  fixes e :: env and content :: string and k :: kernel
    and sq1 sq2 :: "string option" and ts1 tp1 ts2 tp2 :: string
  defines "h \<equiv> sha256 e content"
  defines "r1 \<equiv> generateAddress e content ''xhe'' sq1 ts1 tp1 k"
  defines "r2 \<equiv> generateAddress e content ''xhe'' sq2 ts2 tp2 (snd r1)"
  assumes "content \<noteq> []" and "pulses_ok (pulseStore k) (pulseSequence k)"
  shows "\<exists>g1 g2. fst r1 = Inr g1 \<and> fst r2 = Inr g2
           \<and> g_hash g1 = concat (map hex2 (digest e (encode e content)))
           \<and> g_address g1 = ''xhe://'' @ concat (map hex2 (digest e (encode e content)))
           \<and> set (g_hash g1) \<subseteq> set ''0123456789abcdef''
           \<and> g_address g2 = g_address g1 \<and> g_hash g2 = g_hash g1
           \<and> pulseCount (snd r2) = pulseCount k + 2
           \<and> contentStore (snd r1) =
               AList.update h \<lparr>c_content = content, c_timestamp = ts1,
                 c_author = did (identity k), c_scheme = ''xhe'', c_postMeta = None\<rparr>
                 (contentStore k)
           \<and> contentStore (snd r2) =
               AList.update h \<lparr>c_content = content, c_timestamp = ts2,
                 c_author = did (identity k), c_scheme = ''xhe'', c_postMeta = None\<rparr>
                 (contentStore (snd r1))
           \<and> s_content (localStorage (snd r1)) = Some (contentStore (snd r1))
           \<and> s_content (localStorage (snd r2)) = Some (contentStore (snd r2))
           \<and> map_of (contentStore (snd r1)) h =
               Some \<lparr>c_content = content, c_timestamp = ts1,
                 c_author = did (identity k), c_scheme = ''xhe'', c_postMeta = None\<rparr>
           \<and> map_of (contentStore (snd r2)) h =
               Some \<lparr>c_content = content, c_timestamp = ts2,
                 c_author = did (identity k), c_scheme = ''xhe'', c_postMeta = None\<rparr>
           \<and> map fst (contentStore (snd r2)) = map fst (contentStore (snd r1))"
proof -
  note a = generate_xhe_effect [OF assms(4), where e = e and sq = sq1 and ts = ts1 and tsPulse = tp1 and k = k, folded r1_def h_def]
  note b = generate_xhe_effect [OF assms(4), where e = e and sq = sq2 and ts = ts2 and tsPulse = tp2 and k = "snd r1", folded r2_def h_def]
  from a(1) obtain g1 where g1: "fst r1 = Inr g1" "g_address g1 = ''xhe://'' @ h" "g_hash g1 = h"
    by blast
  from b(1) obtain g2 where g2: "fst r2 = Inr g2" "g_address g2 = ''xhe://'' @ h" "g_hash g2 = h"
    by blast
  have hx: "h = concat (map hex2 (digest e (encode e content)))"
    by (simp add: h_def sha256_def)
  have lower: "set h \<subseteq> set ''0123456789abcdef''"
    unfolding h_def by (rule sha256_lower_hex(1))
  from a(5) [OF assms(5)] have c1: "pulseCount (snd r1) = Suc (pulseCount k)"
    and ok1: "pulses_ok (pulseStore (snd r1)) (pulseSequence (snd r1))" by blast+
  from b(5) [OF ok1] c1 have c2: "pulseCount (snd r2) = pulseCount k + 2" by simp
  have m1: "map_of (contentStore (snd r1)) h =
               Some \<lparr>c_content = content, c_timestamp = ts1,
                 c_author = did (identity k), c_scheme = ''xhe'', c_postMeta = None\<rparr>"
    by (simp add: a(2) update_conv')
  have cs2: "contentStore (snd r2) =
               AList.update h \<lparr>c_content = content, c_timestamp = ts2,
                 c_author = did (identity k), c_scheme = ''xhe'', c_postMeta = None\<rparr>
                 (contentStore (snd r1))"
    using b(2) by (simp add: a(4))
  have m2: "map_of (contentStore (snd r2)) h =
               Some \<lparr>c_content = content, c_timestamp = ts2,
                 c_author = did (identity k), c_scheme = ''xhe'', c_postMeta = None\<rparr>"
    by (simp add: cs2 update_conv')
  have "h \<in> fst ` set (contentStore (snd r1))"
    using m1 by (metis domI dom_map_of_conv_image_fst)
  then have keys: "map fst (contentStore (snd r2)) = map fst (contentStore (snd r1))"
    by (simp add: cs2 update_keys)
  show ?thesis
    apply (rule exI [of _ g1], rule exI [of _ g2])
    using g1 g2 hx lower c2 a(2) cs2 a(3) b(3) m1 m2 keys
    by (simp only: simp_thms)
qed

theorem generateAddress_twice_witness:
  "''hello world'' \<noteq> []
   \<and> pulses_ok (pulseStore demo_kernel) (pulseSequence demo_kernel)
   \<and> pulseCount (snd (generateAddress demo_env ''hello world'' ''xhe'' None ''t5'' ''t6''
        (snd (generateAddress demo_env ''hello world'' ''xhe'' None ''t3'' ''t4'' demo_kernel))))
       = 2
   \<and> map fst (contentStore (snd (generateAddress demo_env ''hello world'' ''xhe'' None ''t5'' ''t6''
        (snd (generateAddress demo_env ''hello world'' ''xhe'' None ''t3'' ''t4'' demo_kernel)))))
       = map fst (contentStore (snd (generateAddress demo_env ''hello world'' ''xhe'' None ''t3'' ''t4'' demo_kernel)))"
proof -
  have c: "''hello world'' \<noteq> []" by simp
  have ok: "pulses_ok (pulseStore demo_kernel) (pulseSequence demo_kernel)"
    by (simp add: demo_kernel_def pulses_ok_def)
  have z: "pulseCount demo_kernel = 0" by (simp add: demo_kernel_def pulseCount_def)
  from generateAddress_twice [OF c ok, where e = demo_env and ?sq1.0 = None and ?ts1.0 = "''t3''"
      and ?tp1.0 = "''t4''" and ?sq2.0 = None and ?ts2.0 = "''t5''" and ?tp2.0 = "''t6''"]
  show ?thesis using c ok z by auto
qed

text \<open>
  C6 as stated fails in its last part: the stored value is not unchanged by the second
  call. Two calls for the content \<open>a\<close> that read the timestamps \<open>t3\<close> and \<open>t5\<close> leave
  entries under the same hash that differ in their timestamp.
\<close>

theorem generateAddress_twice_counterexample:
  "map_of (contentStore (snd (generateAddress demo_env ''a'' ''xhe'' None ''t3'' ''t4'' demo_kernel))) ''61''
     = Some \<lparr>c_content = ''a'', c_timestamp = ''t3'', c_author = ''did:xhe:a1'',
              c_scheme = ''xhe'', c_postMeta = None\<rparr>
   \<and> map_of (contentStore (snd (generateAddress demo_env ''a'' ''xhe'' None ''t5'' ''t6''
        (snd (generateAddress demo_env ''a'' ''xhe'' None ''t3'' ''t4'' demo_kernel))))) ''61''
     = Some \<lparr>c_content = ''a'', c_timestamp = ''t5'', c_author = ''did:xhe:a1'',
              c_scheme = ''xhe'', c_postMeta = None\<rparr>"
  by code_simp

text \<open>
  The count of pulses goes up by two only where the ids to be written are not in the
  store already. A kernel that has been reset and has then imported its own earlier
  snapshot holds the pulse numbered 1 while its counter is back at 0; a call that reads
  the same timestamps as the original one writes the same pulse under the same id again,
  so two calls add one pulse.
\<close>

lemma pulse_count_needs_fresh_ids:
  "pulseCount (snd (importKernelState ''err''
      (Some (parse_snapshot (exportKernelState ''t7''
         (snd (generateAddress demo_env ''a'' ''xhe'' None ''t3'' ''t4'' demo_kernel)))))
      (snd (resetKernel demo_env True ''t5'' ''t6'' demo_draw
         (snd (generateAddress demo_env ''a'' ''xhe'' None ''t3'' ''t4'' demo_kernel)))))) = 1
   \<and> pulseCount (snd (generateAddress demo_env ''a'' ''xhe'' None ''t8'' ''t9''
      (snd (generateAddress demo_env ''a'' ''xhe'' None ''t3'' ''t4''
         (snd (importKernelState ''err''
            (Some (parse_snapshot (exportKernelState ''t7''
               (snd (generateAddress demo_env ''a'' ''xhe'' None ''t3'' ''t4'' demo_kernel)))))
            (snd (resetKernel demo_env True ''t5'' ''t6'' demo_draw
               (snd (generateAddress demo_env ''a'' ''xhe'' None ''t3'' ''t4'' demo_kernel)))))))))) = 2"
  by code_simp

subsection \<open>Following\<close>

lemma blocked_frames:
  "blocked (socialGraph (snd (generateAddress e content sch sq ts tsPulse k))) = blocked (socialGraph k)"
  "s_social (localStorage (snd (generateAddress e content sch sq ts tsPulse k))) = s_social (localStorage k)"
  "blocked (socialGraph (snd (resolveAddress e address tsPulse k))) = blocked (socialGraph k)"
  "s_social (localStorage (snd (resolveAddress e address tsPulse k))) = s_social (localStorage k)"
  "blocked (socialGraph (clearAddressIndex k)) = blocked (socialGraph k)"
  "s_social (localStorage (clearAddressIndex k)) = s_social (localStorage k)"
  "blocked (socialGraph (snd (mintSlips e amount why txId ts tsPulse k))) = blocked (socialGraph k)"
  "s_social (localStorage (snd (mintSlips e amount why txId ts tsPulse k))) = s_social (localStorage k)"
  "blocked (socialGraph (snd (transferSlips e toDid amount memo txId ts tsPulse k))) = blocked (socialGraph k)"
  "s_social (localStorage (snd (transferSlips e toDid amount memo txId ts tsPulse k))) = s_social (localStorage k)"
  "blocked (socialGraph (snd (createPost e content replyTo repostOf chan postId ts tsPulse k))) = blocked (socialGraph k)"
  "s_social (localStorage (snd (createPost e content replyTo repostOf chan postId ts tsPulse k))) = s_social (localStorage k)"
  "blocked (socialGraph (snd (createChannel e name description channelId ts tsPulse k))) = blocked (socialGraph k)"
  "s_social (localStorage (snd (createChannel e name description channelId ts tsPulse k))) = s_social (localStorage k)"
  "blocked (socialGraph (snd (importKernelState msg dat k))) = blocked (socialGraph k)"
  "s_social (localStorage (snd (importKernelState msg dat k))) = s_social (localStorage k)"
  "blocked (socialGraph (snd (regenerateIdentity e archivedTime r tsPulse k))) = blocked (socialGraph k)"
  "s_social (localStorage (snd (regenerateIdentity e archivedTime r tsPulse k))) = s_social (localStorage k)"
  by (auto simp: generateAddress_def storeGenerated_def getNextSequence_def resolveAddress_def
        clearAddressIndex_def mintSlips_def transferSlips_def save_ledger_def createPost_def
        createChannel_def importKernelState_def regenerateIdentity_def createIdentity_def
        as_this_def merge_this_def Let_def split_beta
        split: option.splits)

lemma blocked_follow:
  "blocked (socialGraph (snd (follow e d tsPulse k))) = blocked (socialGraph k)"
  "blocked (loadState (s_social (localStorage (snd (follow e d tsPulse k)))) empty_social) =
     (if fst (follow e d tsPulse k) = Inr None \<or> (\<exists>err. fst (follow e d tsPulse k) = Inl err)
      then blocked (loadState (s_social (localStorage k)) empty_social)
      else blocked (socialGraph k))"
  "blocked (socialGraph (snd (unfollow e d tsPulse k))) = blocked (socialGraph k)"
  "blocked (loadState (s_social (localStorage (snd (unfollow e d tsPulse k)))) empty_social) =
     blocked (socialGraph k)"
  by (auto simp: follow_def unfollow_def Let_def split_beta)

lemma blocked_reset:
  "blocked (socialGraph (snd (resetKernel e preserveIdentity tsPayload tsPulse r k))) = []"
  "s_social (localStorage (snd (resetKernel e preserveIdentity tsPayload tsPulse r k))) = None"
  by (auto simp: resetKernel_def Let_def split_beta createIdentity_def as_this_def
                 merge_this_def empty_store_def empty_social_def)

lemma blocked_boot:
  "boot e b st = Off st' \<Longrightarrow> s_social st' = s_social st"
  "boot e b st = On k \<Longrightarrow>
     socialGraph k = loadState (s_social st) empty_social
     \<and> s_social (localStorage k) = s_social st"
  by (auto simp: boot_def initializeKernel_def loadOrCreateIdentity_def createIdentity_def
                 emitPulseSync_def Let_def split_beta
           split: option.splits if_splits sum.splits)

lemma step_nothing_blocked:
  assumes "nothing_blocked m"
  shows "nothing_blocked (step e opn m)"
proof (cases m)
  case (Off st)
  show ?thesis
  proof (cases opn)
    case (Boot b)
    with Off assms blocked_boot [of e b st] show ?thesis
      by (cases "boot e b st") (auto simp: nothing_blocked_def machine_store_def)
  qed (use Off assms in \<open>simp_all add: nothing_blocked_def machine_store_def\<close>)
next
  case (On k)
  with assms have a: "blocked (loadState (s_social (localStorage k)) empty_social) = []"
    "blocked (socialGraph k) = []"
    by (simp_all add: nothing_blocked_def machine_store_def)
  show ?thesis
  proof (cases opn)
    case (Boot b)
    with On a blocked_boot [of e b "localStorage k"] show ?thesis
      by (cases "boot e b (localStorage k)") (auto simp: nothing_blocked_def machine_store_def)
  next
    case (Follow d tsPulse)
    with On a show ?thesis
      by (simp add: nothing_blocked_def machine_store_def blocked_follow)
  next
    case (Unfollow d tsPulse)
    with On a show ?thesis
      by (simp add: nothing_blocked_def machine_store_def blocked_follow)
  next
    case (Reset preserveIdentity tsPayload tsPulse r)
    with On show ?thesis
      by (simp add: nothing_blocked_def machine_store_def blocked_reset empty_social_def)
  qed (use On a in \<open>simp_all add: nothing_blocked_def machine_store_def blocked_frames\<close>)
qed

lemma run_nothing_blocked:
  "nothing_blocked m \<Longrightarrow> nothing_blocked (run e ops m)"
  by (induction ops arbitrary: m) (simp_all add: step_nothing_blocked)

text \<open>
  No operation writes the blocked set, so in every state the kernel reaches from the empty
  storage it is empty, and with it the intersection with the following set.
\<close>

lemma reachable_nothing_blocked:
  assumes "run e ops (Off empty_store) = On k"
  shows "set (following (socialGraph k)) \<inter> set (blocked (socialGraph k)) = {}"
proof -
  have "nothing_blocked (Off empty_store)"
    by (simp add: nothing_blocked_def machine_store_def empty_store_def empty_social_def)
  from run_nothing_blocked [OF this, of e ops] assms show ?thesis
    by (simp add: nothing_blocked_def)
qed

text \<open>
  C7. In a kernel that follows no blocked identity (the data model's invariant, which
  \<open>follow\<close> keeps and which holds in every kernel a run from the empty storage
  constructs, \<open>reachable_nothing_blocked\<close>): following oneself raises and changes nothing; following a blocked
  identity raises and changes nothing; following an identity that is followed already
  (and is not oneself) returns without a value, a new pulse or any other change; and
  after any call that returned, a second call for the same identity is such a no-op.
\<close>

theorem follow_guards:
  assumes "set (following (socialGraph k)) \<inter> set (blocked (socialGraph k)) = {}"
  shows "follow e (did (identity k)) ts k = (Inl SelfFollowError, k)
       \<and> (d \<in> set (blocked (socialGraph k)) \<longrightarrow>
            follow e d ts k =
              (Inl (if d = did (identity k) then SelfFollowError else BlockedIdentityError), k))
       \<and> (d \<in> set (following (socialGraph k)) \<and> d \<noteq> did (identity k) \<longrightarrow>
            follow e d ts k = (Inr None, k))
       \<and> (\<forall>r k'. follow e d ts k = (Inr r, k') \<longrightarrow>
            follow e d ts' k' = (Inr None, k')
            \<and> set (following (socialGraph k')) = insert d (set (following (socialGraph k)))
            \<and> set (following (socialGraph k')) \<inter> set (blocked (socialGraph k')) = {})"
  using assms
  by (auto simp: follow_def Let_def split_beta split: if_splits)

theorem follow_guards_witness:
  "set (following (socialGraph (demo_kernel\<lparr>socialGraph :=
          \<lparr>following = [''did:xhe:f1''], followers = [], blocked = [''did:xhe:bad'']\<rparr>\<rparr>)))
     \<inter> set (blocked (socialGraph (demo_kernel\<lparr>socialGraph :=
          \<lparr>following = [''did:xhe:f1''], followers = [], blocked = [''did:xhe:bad'']\<rparr>\<rparr>))) = {}
   \<and> follow demo_env ''did:xhe:a1'' ''t3'' (demo_kernel\<lparr>socialGraph :=
          \<lparr>following = [''did:xhe:f1''], followers = [], blocked = [''did:xhe:bad'']\<rparr>\<rparr>)
       = (Inl SelfFollowError, demo_kernel\<lparr>socialGraph :=
          \<lparr>following = [''did:xhe:f1''], followers = [], blocked = [''did:xhe:bad'']\<rparr>\<rparr>)
   \<and> follow demo_env ''did:xhe:bad'' ''t3'' (demo_kernel\<lparr>socialGraph :=
          \<lparr>following = [''did:xhe:f1''], followers = [], blocked = [''did:xhe:bad'']\<rparr>\<rparr>)
       = (Inl BlockedIdentityError, demo_kernel\<lparr>socialGraph :=
          \<lparr>following = [''did:xhe:f1''], followers = [], blocked = [''did:xhe:bad'']\<rparr>\<rparr>)
   \<and> follow demo_env ''did:xhe:f1'' ''t3'' (demo_kernel\<lparr>socialGraph :=
          \<lparr>following = [''did:xhe:f1''], followers = [], blocked = [''did:xhe:bad'']\<rparr>\<rparr>)
       = (Inr None, demo_kernel\<lparr>socialGraph :=
          \<lparr>following = [''did:xhe:f1''], followers = [], blocked = [''did:xhe:bad'']\<rparr>\<rparr>)"
proof -
  let ?K = "demo_kernel\<lparr>socialGraph :=
          \<lparr>following = [''did:xhe:f1''], followers = [], blocked = [''did:xhe:bad'']\<rparr>\<rparr>"
  have h: "set (following (socialGraph ?K)) \<inter> set (blocked (socialGraph ?K)) = {}" by simp
  have me: "did (identity demo_kernel) = ''did:xhe:a1''"
    by (simp add: demo_kernel_def demo_identity_def)
  from follow_guards [OF h, where e = demo_env and ts = "''t3''" and d = "''did:xhe:bad''"]
    follow_guards [OF h, where e = demo_env and ts = "''t3''" and d = "''did:xhe:f1''"]
  show ?thesis using h by (simp add: me)
qed

subsection \<open>Reset\<close>

text \<open>
  C8, as the kernel keeps it. \<open>resetKernel(true)\<close> keeps the identity (and its history, in
  memory and in storage) and leaves the ledger, the pulse store, feeds, channels,
  content store and address index empty and the counter at 0.
  \<open>resetKernel(false)\<close> leaves the same stores empty, clears the history, and installs
  the identity \<open>did:xhe:\<close> followed by the handle drawn, whose did differs from the old one
  whenever the handle drawn does; its ledger is not empty but holds exactly the genesis
  grant of 100 for the new identity. In both cases the \<open>KERNEL_RESET\<close> pulse just emitted
  is not in the pulse store, and storage holds no pulse store.
\<close>

theorem resetKernel_effect:
  fixes e :: env and k :: kernel and r :: identity_draw and tsPayload ts :: string
  defines "kt \<equiv> snd (resetKernel e True tsPayload ts r k)"
  defines "kf \<equiv> snd (resetKernel e False tsPayload ts r k)"
  shows "fst (resetKernel e True tsPayload ts r k) = Inr ()
       \<and> identity kt = identity k \<and> identityHistory kt = identityHistory k
       \<and> s_identity (localStorage kt) = s_identity (localStorage k)
       \<and> slipLedger kt = empty_ledger \<and> pulseStore kt = [] \<and> feeds kt = [] \<and> channels kt = []
       \<and> contentStore kt = [] \<and> addressIndex kt = [] \<and> pulseSequence kt = 0
       \<and> s_pulses (localStorage kt) = None \<and> s_ledger (localStorage kt) = None
       \<and> fst (resetKernel e False tsPayload ts r k) = Inr ()
       \<and> identity kf = \<lparr>did = ''did:xhe:'' @ r_id r, publicKey = r_publicKey r,
                         created = r_created r, version = 1\<rparr>
       \<and> s_identity (localStorage kf) = Some (identity kf)
       \<and> identityHistory kf = []
       \<and> slipLedger kf = \<lparr>balances = [(''did:xhe:'' @ r_id r, 100)], transactions = []\<rparr>
       \<and> pulseStore kf = [] \<and> feeds kf = [] \<and> channels kf = []
       \<and> contentStore kf = [] \<and> addressIndex kf = [] \<and> pulseSequence kf = 0
       \<and> s_pulses (localStorage kf) = None
       \<and> (''did:xhe:'' @ r_id r \<noteq> did (identity k) \<longrightarrow> did (identity kf) \<noteq> did (identity k))
       \<and> map_of (pulseStore kt)
            (e_pulseId (fst (emitPulse e KERNEL_RESET
               (JObj [(''preserveIdentity'', JBool True), (''timestamp'', JStr tsPayload)]) ts k)))
            = None
       \<and> map_of (pulseStore kf)
            (e_pulseId (fst (emitPulse e KERNEL_RESET
               (JObj [(''preserveIdentity'', JBool False), (''timestamp'', JStr tsPayload)]) ts k)))
            = None"
  unfolding kt_def kf_def
  by (simp add: resetKernel_def Let_def split_beta createIdentity_def as_this_def merge_this_def
                empty_store_def empty_ledger_def no_balance_def)

theorem resetKernel_effect_witness:
  "''did:xhe:'' @ r_id \<lparr>r_id = ''c3'', r_publicKey = ''d4'', r_created = ''t5'', r_pulseTime = ''t5''\<rparr>
      \<noteq> did (identity demo_kernel)
   \<and> identity (snd (resetKernel demo_env True ''t3'' ''t4''
        \<lparr>r_id = ''c3'', r_publicKey = ''d4'', r_created = ''t5'', r_pulseTime = ''t5''\<rparr> demo_kernel))
       = demo_identity
   \<and> did (identity (snd (resetKernel demo_env False ''t3'' ''t4''
        \<lparr>r_id = ''c3'', r_publicKey = ''d4'', r_created = ''t5'', r_pulseTime = ''t5''\<rparr> demo_kernel)))
       \<noteq> did (identity demo_kernel)
   \<and> pulseStore (snd (resetKernel demo_env False ''t3'' ''t4''
        \<lparr>r_id = ''c3'', r_publicKey = ''d4'', r_created = ''t5'', r_pulseTime = ''t5''\<rparr> demo_kernel))
       = []"
proof -
  have i: "identity demo_kernel = demo_identity" by (simp add: demo_kernel_def)
  have d: "''did:xhe:'' @ r_id \<lparr>r_id = ''c3'', r_publicKey = ''d4'', r_created = ''t5'', r_pulseTime = ''t5''\<rparr>
      \<noteq> did (identity demo_kernel)"
    by (simp add: i demo_identity_def)
  from resetKernel_effect [where e = demo_env and tsPayload = "''t3''" and ts = "''t4''"
      and r = "\<lparr>r_id = ''c3'', r_publicKey = ''d4'', r_created = ''t5'', r_pulseTime = ''t5''\<rparr>"
      and k = demo_kernel] d i
  show ?thesis by simp
qed

text \<open>
  C8 as stated fails for \<open>resetKernel(false)\<close>: the ledger is not left empty, since the new
  identity receives its genesis grant; and the new did is the old one again when the
  handle drawn is the old handle.
\<close>

theorem resetKernel_counterexample:
  "slipLedger (snd (resetKernel demo_env False ''t3'' ''t4''
        \<lparr>r_id = ''c3'', r_publicKey = ''d4'', r_created = ''t5'', r_pulseTime = ''t5''\<rparr> demo_kernel))
     = \<lparr>balances = [(''did:xhe:c3'', 100)], transactions = []\<rparr>
   \<and> did (identity (snd (resetKernel demo_env False ''t3'' ''t4'' demo_draw demo_kernel)))
     = did (identity demo_kernel)"
  by code_simp

subsection \<open>Export and import\<close>






end
